theory Spec2Isabelle
  imports Main "HOL-Library.Char_ord" "HOL-Library.List_Lexorder"
begin

section \<open>JavaScript values and the Lambda interface\<close>

text \<open>
  Values that cross the handler boundary are JSON values. A JavaScript object is an
  association list of its keys in insertion order, which is the order
  \<^verbatim>\<open>JSON.stringify\<close> prints them in. Numbers are modelled as integers: the
  claims only concern counts, status codes and stock quantities. A stored number outside
  the safe integer range reaches the handler as a BigInt, which is a value of its own.
\<close>

datatype json =
    JNull
  | JBool bool
  | JNumber int
  | JBigInt int
  | JString string
  | JArray "json list"
  | JObject "(string \<times> json) list"

type_synonym item = "(string \<times> json) list"

text \<open>
  Of \<^verbatim>\<open>APIGatewayProxyEvent\<close> the handlers read \<^verbatim>\<open>queryStringParameters\<close> only:
  \<^verbatim>\<open>null\<close> or an object from parameter names to strings.
\<close>

record event =
  queryStringParameters :: "(string \<rightharpoonup> string) option"

text \<open>
  The argument of \<^verbatim>\<open>new ScanCommand({...})\<close>; a field that is \<^verbatim>\<open>undefined\<close> is
  \<open>None\<close>. The handlers build no other command.
\<close>

record scan_input =
  TableName :: "string option"
  FilterExpression :: "string option"
  ExpressionAttributeValues :: "item option"

datatype command = ScanCommand scan_input

text \<open>What \<^verbatim>\<open>docClient.send\<close> resolves to; the handlers read \<^verbatim>\<open>Items\<close> and \<^verbatim>\<open>Count\<close>.\<close>

record scan_output =
  Items :: "item list option"
  Count :: "int option"

text \<open>
  A rejected promise carries any JavaScript value: an \<^verbatim>\<open>Error\<close> instance with its
  \<^verbatim>\<open>name\<close>, \<^verbatim>\<open>message\<close> and \<^verbatim>\<open>stack\<close>, or something else.
\<close>

datatype thrown =
    JsError (err_name: string) (err_message: string) (err_stack: string)
  | NonError json

text \<open>
  The document client is a parameter of the handlers. \<^verbatim>\<open>await docClient.send(command)\<close>
  either resolves (\<open>Inr\<close>) or throws (\<open>Inl\<close>), and may change the state \<open>'s\<close> of the
  world behind the client.
\<close>

type_synonym 's doc_client = "command \<Rightarrow> 's \<Rightarrow> (thrown + scan_output) \<times> 's"

text \<open>
  \<^verbatim>\<open>APIGatewayProxyResult\<close>. The body is the value handed to \<^verbatim>\<open>JSON.stringify\<close>.
\<close>

record response =
  statusCode :: int
  headers :: "(string \<times> string) list"
  body :: json

section \<open>The handlers\<close>

text \<open>
  \<^verbatim>\<open>const { city } = event.queryStringParameters || {}\<close>: \<^verbatim>\<open>null\<close> is replaced by
  the empty object, and a missing key reads as \<^verbatim>\<open>undefined\<close>.
\<close>

definition query_param :: "event \<Rightarrow> string \<Rightarrow> string option" where
  "query_param ev k =
     (case queryStringParameters ev of None \<Rightarrow> None | Some q \<Rightarrow> q k)"

text \<open>\<^verbatim>\<open>x ? a : undefined\<close> for a string \<open>x\<close>: \<^verbatim>\<open>undefined\<close> and \<^verbatim>\<open>''\<close> are falsy.\<close>

definition truthy :: "string option \<Rightarrow> bool" where
  "truthy x = (case x of None \<Rightarrow> False | Some s \<Rightarrow> s \<noteq> [])"

definition get_markets_command :: "(string \<rightharpoonup> string) \<Rightarrow> event \<Rightarrow> command" where
  "get_markets_command env ev =
     (let city = query_param ev ''city'' in
      ScanCommand \<lparr>
        TableName = env ''MARKETS_TABLE_NAME'',
        FilterExpression = (if truthy city then Some ''city = :city'' else None),
        ExpressionAttributeValues =
          (case city of
             Some c \<Rightarrow> if c \<noteq> [] then Some [('':city'', JString c)] else None
           | None \<Rightarrow> None) \<rparr>)"

definition get_products_command :: "(string \<rightharpoonup> string) \<Rightarrow> event \<Rightarrow> command" where
  "get_products_command env ev =
     (let marketId = query_param ev ''marketId'' in
      ScanCommand \<lparr>
        TableName = env ''PRODUCTS_TABLE_NAME'',
        FilterExpression = (if truthy marketId then Some ''marketId = :marketId'' else None),
        ExpressionAttributeValues =
          (case marketId of
             Some m \<Rightarrow> if m \<noteq> [] then Some [('':marketId'', JString m)] else None
           | None \<Rightarrow> None) \<rparr>)"

definition success_headers :: "(string \<times> string) list" where
  "success_headers =
     [(''Content-Type'', ''application/json''),
      (''Access-Control-Allow-Origin'', ''*''),
      (''Access-Control-Allow-Headers'', ''Content-Type''),
      (''Access-Control-Allow-Methods'', ''OPTIONS,POST,GET'')]"

definition failure_headers :: "(string \<times> string) list" where
  "failure_headers =
     [(''Content-Type'', ''application/json''),
      (''Access-Control-Allow-Origin'', ''*'')]"

text \<open>\<^verbatim>\<open>error instanceof Error ? error.message : 'Unknown error'\<close>\<close>

fun failure_message :: "thrown \<Rightarrow> string" where
  "failure_message (JsError n m st) = m"
| "failure_message (NonError v) = ''Unknown error''"

text \<open>\<^verbatim>\<open>result.Items || []\<close> and \<^verbatim>\<open>result.Count || 0\<close>\<close>

definition items_or_empty :: "scan_output \<Rightarrow> item list" where
  "items_or_empty out = (case Items out of None \<Rightarrow> [] | Some xs \<Rightarrow> xs)"

definition count_or_zero :: "scan_output \<Rightarrow> int" where
  "count_or_zero out = (case Count out of None \<Rightarrow> 0 | Some c \<Rightarrow> if c = 0 then 0 else c)"

text \<open>
  \<^verbatim>\<open>JSON.stringify\<close> throws a \<^verbatim>\<open>TypeError\<close> on a value that holds a BigInt. Every
  other value is serialised; the body of a response is the value serialised.
\<close>

fun holds_bigint :: "json \<Rightarrow> bool" where
  "holds_bigint (JBigInt n) = True"
| "holds_bigint (JArray xs) = list_ex holds_bigint xs"
| "holds_bigint (JObject kvs) = list_ex (\<lambda>kv. holds_bigint (snd kv)) kvs"
| "holds_bigint v = False"

definition JSON_stringify :: "json \<Rightarrow> thrown + json" where
  "JSON_stringify v =
     (if holds_bigint v
      then Inl (JsError ''TypeError'' ''Do not know how to serialize a BigInt''
                  ''TypeError: Do not know how to serialize a BigInt at JSON.stringify'')
      else Inr v)"

text \<open>
  The handler of \<^verbatim>\<open>get-markets\<close>. The \<^verbatim>\<open>try\<close> block covers the whole body, so an
  error thrown by \<^verbatim>\<open>send\<close> or by \<^verbatim>\<open>JSON.stringify\<close> in the \<^verbatim>\<open>return\<close> statement
  ends in the \<^verbatim>\<open>catch\<close> block. \<^verbatim>\<open>console.error\<close> writes to the log and is left out.
\<close>

definition get_markets_catch :: "thrown \<Rightarrow> response" where
  "get_markets_catch error =
     \<lparr> statusCode = 500,
       headers = failure_headers,
       body = JObject [(''error'', JString ''Failed to fetch markets''),
                       (''message'', JString (failure_message error))] \<rparr>"

definition get_markets_handler ::
  "(string \<rightharpoonup> string) \<Rightarrow> 's doc_client \<Rightarrow> event \<Rightarrow> 's \<Rightarrow> response \<times> 's" where
  "get_markets_handler env send ev s =
     (case send (get_markets_command env ev) s of
        (Inr result, s') \<Rightarrow>
          (case JSON_stringify
                  (JObject [(''markets'', JArray (map JObject (items_or_empty result))),
                            (''count'', JNumber (count_or_zero result))]) of
             Inr b \<Rightarrow> (\<lparr> statusCode = 200, headers = success_headers, body = b \<rparr>, s')
           | Inl error \<Rightarrow> (get_markets_catch error, s'))
      | (Inl error, s') \<Rightarrow> (get_markets_catch error, s'))"

text \<open>The handler of \<^verbatim>\<open>get-products\<close>.\<close>

definition get_products_catch :: "thrown \<Rightarrow> response" where
  "get_products_catch error =
     \<lparr> statusCode = 500,
       headers = failure_headers,
       body = JObject [(''error'', JString ''Failed to fetch products''),
                       (''message'', JString (failure_message error))] \<rparr>"

definition get_products_handler ::
  "(string \<rightharpoonup> string) \<Rightarrow> 's doc_client \<Rightarrow> event \<Rightarrow> 's \<Rightarrow> response \<times> 's" where
  "get_products_handler env send ev s =
     (case send (get_products_command env ev) s of
        (Inr result, s') \<Rightarrow>
          (case JSON_stringify
                  (JObject [(''products'', JArray (map JObject (items_or_empty result))),
                            (''count'', JNumber (count_or_zero result))]) of
             Inr b \<Rightarrow> (\<lparr> statusCode = 200, headers = success_headers, body = b \<rparr>, s')
           | Inl error \<Rightarrow> (get_products_catch error, s'))
      | (Inl error, s') \<Rightarrow> (get_products_catch error, s'))"

section \<open>The shared response helpers\<close>

text \<open>\<^verbatim>\<open>shared/response.ts\<close>. A defaulted parameter is an option: \<open>None\<close> takes the default.\<close>

definition corsHeaders :: "(string \<times> string) list" where
  "corsHeaders =
     [(''Content-Type'', ''application/json''),
      (''Access-Control-Allow-Origin'', ''*''),
      (''Access-Control-Allow-Headers'', ''Content-Type,Authorization''),
      (''Access-Control-Allow-Methods'', ''OPTIONS,POST,GET,PUT,DELETE'')]"

definition successResponse :: "json \<Rightarrow> int option \<Rightarrow> response" where
  "successResponse data' code =
     \<lparr> statusCode = (case code of None \<Rightarrow> 200 | Some c \<Rightarrow> c),
       headers = corsHeaders,
       body = data' \<rparr>"

definition errorResponse :: "string \<Rightarrow> int option \<Rightarrow> response" where
  "errorResponse msg code =
     \<lparr> statusCode = (case code of None \<Rightarrow> 500 | Some c \<Rightarrow> c),
       headers = corsHeaders,
       body = JObject [(''error'', JString msg)] \<rparr>"

definition validationErrorResponse :: "string list \<Rightarrow> response" where
  "validationErrorResponse errors =
     \<lparr> statusCode = 400,
       headers = corsHeaders,
       body = JObject [(''error'', JString ''Validation failed''),
                       (''details'', JArray (map JString errors))] \<rparr>"

text \<open>\<^verbatim>\<open>Object.keys\<close> of a body; a body that is no object has none.\<close>

fun object_keys :: "json \<Rightarrow> string list" where
  "object_keys (JObject kvs) = map fst kvs"
| "object_keys _ = []"

section \<open>The table store behind the document client\<close>

text \<open>
  DynamoDB is outside the repository. One \<^verbatim>\<open>Scan\<close> call reads a single page: the
  leading items of the table, in the order the table stores them, up to 1 MB of data,
  and the service may end a page earlier; \<open>page_limit w t\<close> is the number of items
  of table \<open>t\<close> that it puts in a page. A
  \<^verbatim>\<open>FilterExpression\<close> of the form \<^verbatim>\<open>attr = :placeholder\<close> is applied to the page
  read and keeps the items whose attribute equals the placeholder's value, and
  \<^verbatim>\<open>Count\<close> is the number of items returned. The handlers send no
  \<^verbatim>\<open>ExclusiveStartKey\<close>, so every call starts at the first item. A scan writes
  nothing. The world also counts the calls it has received and may fail any of them:
  \<open>faults w n\<close> is the error thrown by call number \<open>n\<close>.
\<close>

record world =
  tables :: "string \<rightharpoonup> item list"
  calls :: nat
  faults :: "nat \<Rightarrow> thrown option"
  page_limit :: "string \<Rightarrow> nat"

text \<open>Splitting \<^verbatim>\<open>attr = :placeholder\<close> at the first \<^verbatim>\<open>" = "\<close>.\<close>

fun split_equality :: "string \<Rightarrow> string \<Rightarrow> (string \<times> string) option" where
  "split_equality acc [] = None"
| "split_equality acc (c # cs) =
     (if take 3 (c # cs) = '' = '' then Some (rev acc, drop 3 (c # cs))
      else split_equality (c # acc) cs)"

text \<open>
  The filters a scan input carries: none without a \<^verbatim>\<open>FilterExpression\<close>, one equality
  otherwise; \<open>None\<close> when the expression is not of that form or its placeholder has no
  value, which the service rejects.
\<close>

definition scan_filters :: "scan_input \<Rightarrow> (string \<times> json) list option" where
  "scan_filters inp =
     (case FilterExpression inp of
        None \<Rightarrow> Some []
      | Some fe \<Rightarrow>
        (case split_equality [] fe of
           None \<Rightarrow> None
         | Some (attr, ph) \<Rightarrow>
           (case ExpressionAttributeValues inp of
              None \<Rightarrow> None
            | Some vals \<Rightarrow>
              (case map_of vals ph of
                 None \<Rightarrow> None
               | Some v \<Rightarrow> Some [(attr, v)]))))"

text \<open>An item passes when each filtered attribute is present with the given value.\<close>

definition satisfies :: "(string \<times> json) list \<Rightarrow> item \<Rightarrow> bool" where
  "satisfies fs it = list_all (\<lambda>(attr, v). map_of it attr = Some v) fs"

definition dynamo_scan ::
  "scan_input \<Rightarrow> (string \<rightharpoonup> item list) \<Rightarrow> (string \<Rightarrow> nat) \<Rightarrow> thrown + scan_output" where
  "dynamo_scan inp tbls limit =
     (case TableName inp of
        None \<Rightarrow> Inl (JsError ''Error'' ''Missing TableName'' [])
      | Some t \<Rightarrow>
        (case tbls t of
           None \<Rightarrow> Inl (JsError ''ResourceNotFoundException'' ''Requested resource not found'' [])
         | Some rows \<Rightarrow>
           (case scan_filters inp of
              None \<Rightarrow> Inl (JsError ''ValidationException'' ''Invalid FilterExpression'' [])
            | Some fs \<Rightarrow>
                Inr \<lparr> Items = Some (filter (satisfies fs) (take (limit t) rows)),
                      Count = Some (int (length (filter (satisfies fs)
                                                  (take (limit t) rows)))) \<rparr>)))"

fun dynamo_send :: "world doc_client" where
  "dynamo_send (ScanCommand inp) w =
     ((case faults w (calls w) of
         Some e \<Rightarrow> Inl e
       | None \<Rightarrow> dynamo_scan inp (tables w) (page_limit w)),
      w\<lparr> calls := Suc (calls w) \<rparr>)"


section \<open>Query planning\<close>

text \<open>
  The secondary indexes that \<^verbatim>\<open>DatabaseStack\<close> declares on each table: index name,
  partition key and sort key.
\<close>

datatype collection = Products | Users | Orders | Markets

fun secondary_indexes :: "collection \<Rightarrow> (string \<times> string \<times> string option) list" where
  "secondary_indexes Products =
     [(''marketId-index'', ''marketId'', Some ''createdAt''),
      (''category-index'', ''category'', Some ''createdAt'')]"
| "secondary_indexes Users = [(''email-index'', ''email'', None)]"
| "secondary_indexes Orders =
     [(''userId-index'', ''userId'', Some ''createdAt''),
      (''sellerId-index'', ''sellerId'', Some ''createdAt'')]"
| "secondary_indexes Markets = [(''city-index'', ''city'', Some ''name'')]"

text \<open>
  A storage operation is a lookup in a named index for one key value, ordered by the
  index's sort key, or a scan of the whole table that keeps the items passing every
  filter.
\<close>

datatype query_op =
    IndexLookup string json "string option"
  | FullScan "(string \<times> json) list"

text \<open>The operation a command makes the store run. A \<^verbatim>\<open>ScanCommand\<close> is a scan.\<close>

fun executed_op :: "command \<Rightarrow> query_op option" where
  "executed_op (ScanCommand inp) = map_option FullScan (scan_filters inp)"

text \<open>
  The planner as section 4.3 of the specification words it, for comparison with the
  commands the handlers build: filters that are exactly one index's key give a lookup in
  that index, anything else a scan with all the filters.
\<close>

definition spec_plan :: "collection \<Rightarrow> (string \<times> json) list \<Rightarrow> query_op" where
  "spec_plan c filters =
     (case filters of
        [(k, v)] \<Rightarrow>
          (case find (\<lambda>(n, pk, sk). pk = k) (secondary_indexes c) of
             Some (n, pk, sk) \<Rightarrow> IndexLookup n v sk
           | None \<Rightarrow> FullScan filters)
      | _ \<Rightarrow> FullScan filters)"


section \<open>Sample data\<close>

definition sample_env :: "string \<rightharpoonup> string" where
  "sample_env = [''PRODUCTS_TABLE_NAME'' \<mapsto> ''products'', ''MARKETS_TABLE_NAME'' \<mapsto> ''markets'']"

definition apple :: item where
  "apple = [(''id'', JString ''1''), (''name'', JString ''Apple''),
            (''marketId'', JString ''market-123''), (''stockQuantity'', JNumber 5),
            (''createdAt'', JString ''2024-01-01T00:00:00Z'')]"

definition banana :: item where
  "banana = [(''id'', JString ''2''), (''name'', JString ''Banana''),
             (''marketId'', JString ''market-123''), (''stockQuantity'', JNumber 7),
             (''createdAt'', JString ''2024-02-01T00:00:00Z'')]"

definition cherry :: item where
  "cherry = [(''id'', JString ''3''), (''name'', JString ''Cherry''),
             (''marketId'', JString ''market-456''), (''stockQuantity'', JNumber 0),
             (''createdAt'', JString ''2024-03-01T00:00:00Z'')]"

definition minorista :: item where
  "minorista = [(''id'', JString ''m1''), (''name'', JString ''Minorista''),
                (''city'', JString ''Medellin'')]"

definition paloquemao :: item where
  "paloquemao = [(''id'', JString ''m2''), (''name'', JString ''Paloquemao''),
                 (''city'', JString ''Bogota'')]"


text \<open>A product whose stock is beyond the safe integer range.\<close>

definition durian :: item where
  "durian = [(''id'', JString ''4''), (''name'', JString ''Durian''),
             (''marketId'', JString ''market-789''),
             (''stockQuantity'', JBigInt 9007199254740993),
             (''createdAt'', JString ''2024-04-01T00:00:00Z'')]"

text \<open>A world whose products table stores the later product first.\<close>

definition sample_world :: world where
  "sample_world =
     \<lparr> tables = [''products'' \<mapsto> [banana, cherry, apple],
                 ''markets'' \<mapsto> [minorista, paloquemao]],
       calls = 0,
       faults = (\<lambda>n. None),
       page_limit = (\<lambda>t. 1000) \<rparr>"

definition service_unavailable :: thrown where
  "service_unavailable =
     JsError ''ServiceUnavailable'' ''Service Unavailable''
       ''ServiceUnavailable: Service Unavailable at deserializeAws_json1_0ScanCommandError''"

text \<open>The same world, except that its first call fails with a 503 of the service.\<close>

definition outage_world :: world where
  "outage_world =
     sample_world \<lparr> faults := (\<lambda>n. if n = 0 then Some service_unavailable else None) \<rparr>"


text \<open>A world whose products table holds the product with the oversized stock.\<close>

definition bigint_world :: world where
  "bigint_world = sample_world \<lparr> tables := [''products'' \<mapsto> [durian]] \<rparr>"

definition market_query :: event where
  "market_query = \<lparr> queryStringParameters = Some [''marketId'' \<mapsto> ''market-123''] \<rparr>"


definition medellin_query :: event where
  "medellin_query = \<lparr> queryStringParameters = Some [''city'' \<mapsto> ''Medellin''] \<rparr>"

definition no_query :: event where
  "no_query = \<lparr> queryStringParameters = None \<rparr>"

section \<open>Authorization and order placement\<close>

text \<open>
  Modelled from the spec: the users, products and orders of section 3. The stack declares
  Lambdas for \<^verbatim>\<open>create-product\<close> and \<^verbatim>\<open>create-order\<close>, but their handlers and
  the types they work on are not among the sources. Identifiers are opaque in the
  specification and are natural numbers here; prices are integers in the smallest unit of
  the currency. The implicit \<^verbatim>\<open>updatedAt\<close> of a write is left out.
\<close>

datatype role = Customer | Seller | Both

record user =
  user_id :: nat
  email :: string
  role :: role

record product =
  product_id :: nat
  sellerId :: nat
  marketId :: nat
  category :: string
  name :: string
  price :: int
  stockQuantity :: int
  createdAt :: nat

datatype order_status = Pending | Confirmed | Cancelled

record line_item =
  productId :: nat
  quantity :: int

record order_line =
  line_productId :: nat
  line_quantity :: int
  unitPriceAtPurchase :: int

record order =
  order_id :: nat
  userId :: nat
  order_sellerId :: "nat option"
  lineItems :: "order_line list"
  status :: order_status
  order_createdAt :: nat

text \<open>
  Modelled from the spec: the storage adapter of section 4.1, which is not in the sources.
  It holds the products by id and the orders; \<open>tick\<close> supplies the id and the
  \<^verbatim>\<open>createdAt\<close> that \<^verbatim>\<open>put\<close> assigns to a new entity.
\<close>

record store =
  products :: "nat \<rightharpoonup> product"
  orders :: "order list"
  tick :: nat

text \<open>Modelled from the spec: the error taxonomy of section 7 and its status codes.\<close>

datatype failure =
    ValidationError "string list"
  | AuthorizationError string
  | NotFound
  | ProductNotFound
  | InsufficientStock
  | StorageUnavailable
  | Unexpected string

fun status_of :: "failure \<Rightarrow> int" where
  "status_of (ValidationError details) = 400"
| "status_of (AuthorizationError reason) = 403"
| "status_of NotFound = 404"
| "status_of ProductNotFound = 404"
| "status_of InsufficientStock = 409"
| "status_of StorageUnavailable = 503"
| "status_of (Unexpected msg) = 500"

text \<open>
  Modelled from the spec: the actions, resources and decisions that section 4.2 speaks of. A
  resource carries the entity it concerns, when there is one already.
\<close>

datatype action = Read | Create | Update | Delete

datatype resource =
    ProductResource "product option"
  | MarketResource
  | OrderResource "order option"

datatype decision = Allow | Deny string

text \<open>
  Modelled from the spec: \<^verbatim>\<open>authorize(caller, action, resource)\<close> of section 4.2, which is
  not in the sources. The caller is \<open>None\<close> when anonymous. The rules are the listed
  ones, in their order; what no rule allows is denied.
\<close>

fun authorize :: "user option \<Rightarrow> action \<Rightarrow> resource \<Rightarrow> decision" where
  "authorize None Read (ProductResource p) = Allow"
| "authorize None Read MarketResource = Allow"
| "authorize None a r = Deny ''anonymous callers may only read products and markets''"
| "authorize (Some u) Read (ProductResource p) = Allow"
| "authorize (Some u) Read MarketResource = Allow"
| "authorize (Some u) Create (ProductResource p) =
     (if role u = Seller \<or> role u = Both then Allow
      else Deny ''creating a product requires role seller or both'')"
| "authorize (Some u) Update (ProductResource (Some p)) =
     (if user_id u = sellerId p then Allow else Deny ''caller is not the owning seller'')"
| "authorize (Some u) Delete (ProductResource (Some p)) =
     (if user_id u = sellerId p then Allow else Deny ''caller is not the owning seller'')"
| "authorize (Some u) Create (OrderResource ord) =
     (if role u = Customer \<or> role u = Both then Allow
      else Deny ''creating an order requires role customer or both'')"
| "authorize (Some u) Read (OrderResource (Some ord)) =
     (if user_id u = userId ord \<or> Some (user_id u) = order_sellerId ord then Allow
      else Deny ''caller is neither the buyer nor the seller of the order'')"
| "authorize (Some u) a r = Deny ''action not permitted''"

text \<open>
  Modelled from the spec: the body of a \<^verbatim>\<open>POST /products\<close> request (section 6), which
  may name a seller of its own.
\<close>

record product_body =
  body_sellerId :: "nat option"
  body_marketId :: nat
  body_category :: string
  body_name :: string
  body_price :: int
  body_stockQuantity :: int

text \<open>
  Modelled from the spec: creating a product (sections 2, 4.2 and 7); the handler
  \<^verbatim>\<open>create-product\<close> is not in the sources. Authorization comes first and rejects
  early, a negative price or quantity is a validation error, and the stored product takes
  its \<^verbatim>\<open>sellerId\<close> from the caller, never from the body.
\<close>

definition createProduct ::
  "user option \<Rightarrow> product_body \<Rightarrow> store \<Rightarrow> (failure + product) \<times> store" where
  "createProduct caller b st =
     (case authorize caller Create (ProductResource None) of
        Deny reason \<Rightarrow> (Inl (AuthorizationError reason), st)
      | Allow \<Rightarrow>
        (case caller of
           None \<Rightarrow> (Inl (AuthorizationError ''no caller''), st)
         | Some u \<Rightarrow>
             if body_price b < 0 \<or> body_stockQuantity b < 0
             then (Inl (ValidationError [''price and stockQuantity must not be negative'']), st)
             else
               (let p = \<lparr> product_id = tick st, sellerId = user_id u,
                          marketId = body_marketId b, category = body_category b,
                          name = body_name b, price = body_price b,
                          stockQuantity = body_stockQuantity b, createdAt = tick st \<rparr>
                in (Inr p, st \<lparr> products := (products st)(tick st \<mapsto> p),
                                 tick := Suc (tick st) \<rparr>))))"

text \<open>
  Modelled from the spec: the conditional decrement of section 4.4, step 3, and the
  glossary: the stock is lowered by the quantity only if it is at least the quantity when
  the write is made. \<open>None\<close> is a failed condition.
\<close>

definition conditional_decrement :: "nat \<Rightarrow> int \<Rightarrow> store \<Rightarrow> store option" where
  "conditional_decrement pid q st =
     (case products st pid of
        None \<Rightarrow> None
      | Some p \<Rightarrow>
          if q \<le> stockQuantity p
          then Some (st \<lparr> products :=
                 (products st)(pid \<mapsto> p \<lparr> stockQuantity := stockQuantity p - q \<rparr>) \<rparr>)
          else None)"

text \<open>Modelled from the spec: the re-increment that undoes one decrement (step 4).\<close>

definition increment :: "nat \<Rightarrow> int \<Rightarrow> store \<Rightarrow> store" where
  "increment pid q st =
     (case products st pid of
        None \<Rightarrow> st
      | Some p \<Rightarrow>
          st \<lparr> products :=
                 (products st)(pid \<mapsto> p \<lparr> stockQuantity := stockQuantity p + q \<rparr>) \<rparr>)"

text \<open>
  Modelled from the spec: the rollback of step 4, which re-increments every decrement the
  order has applied, the latest first.
\<close>

fun rollback :: "line_item list \<Rightarrow> store \<Rightarrow> store" where
  "rollback [] st = st"
| "rollback (li # applied) st = rollback applied (increment (productId li) (quantity li) st)"

text \<open>
  Modelled from the spec: steps 3 and 4 of section 4.4. The line items are tried in list
  order; \<open>applied\<close> holds those already decremented, the latest first. The first
  failed condition rolls the applied ones back and gives \<open>Inl\<close> of the restored store.
\<close>

fun decrement_each :: "line_item list \<Rightarrow> line_item list \<Rightarrow> store \<Rightarrow> store + store" where
  "decrement_each applied [] st = Inr st"
| "decrement_each applied (li # lis) st =
     (case conditional_decrement (productId li) (quantity li) st of
        None \<Rightarrow> Inl (rollback applied st)
      | Some st' \<Rightarrow> decrement_each (li # applied) lis st')"

text \<open>
  Modelled from the spec: steps 1 and 2 of section 4.4. Every line item must name an
  existing product and a positive quantity; the product's price at that moment becomes
  the \<^verbatim>\<open>unitPriceAtPurchase\<close> of the line. \<open>None\<close> is a failed validation.
\<close>

fun snapshot :: "store \<Rightarrow> line_item list \<Rightarrow> order_line list option" where
  "snapshot st [] = Some []"
| "snapshot st (li # lis) =
     (case products st (productId li) of
        None \<Rightarrow> None
      | Some p \<Rightarrow>
          if quantity li \<le> 0 then None
          else map_option
                 ((#) \<lparr> line_productId = productId li, line_quantity = quantity li,
                        unitPriceAtPurchase = price p \<rparr>)
                 (snapshot st lis))"

text \<open>
  Modelled from the spec: \<^verbatim>\<open>placeOrder(buyerId, lineItems)\<close> of section 4.4; the handler
  \<^verbatim>\<open>create-order\<close> is not in the sources. The order's seller is the seller of the
  first ordered product.
\<close>

definition placeOrder ::
  "nat \<Rightarrow> line_item list \<Rightarrow> store \<Rightarrow> (failure + order) \<times> store" where
  "placeOrder buyerId lis st =
     (case snapshot st lis of
        None \<Rightarrow> (Inl ProductNotFound, st)
      | Some lines \<Rightarrow>
        (case decrement_each [] lis st of
           Inl st' \<Rightarrow> (Inl InsufficientStock, st')
         | Inr st' \<Rightarrow>
             (let ord = \<lparr> order_id = tick st', userId = buyerId,
                          order_sellerId =
                            (case lis of
                               [] \<Rightarrow> None
                             | li # _ \<Rightarrow> map_option sellerId (products st (productId li))),
                          lineItems = lines, status = Pending,
                          order_createdAt = tick st' \<rparr>
              in (Inr ord, st' \<lparr> orders := orders st' @ [ord],
                                  tick := Suc (tick st') \<rparr>))))"

text \<open>Sample users, products and a store for the modelled operations.\<close>

definition a_customer :: user where
  "a_customer = \<lparr> user_id = 7, email = ''buyer@example.com'', role = Customer \<rparr>"

definition a_seller :: user where
  "a_seller = \<lparr> user_id = 8, email = ''seller@example.com'', role = Seller \<rparr>"

definition forged_body :: product_body where
  "forged_body = \<lparr> body_sellerId = Some 99, body_marketId = 1, body_category = ''fruit'',
                   body_name = ''Mango'', body_price = 250, body_stockQuantity = 4 \<rparr>"

definition mango :: product where
  "mango = \<lparr> product_id = 1, sellerId = 8, marketId = 1, category = ''fruit'',
             name = ''Mango'', price = 250, stockQuantity = 5, createdAt = 0 \<rparr>"

definition lulo :: product where
  "lulo = \<lparr> product_id = 2, sellerId = 8, marketId = 1, category = ''fruit'',
            name = ''Lulo'', price = 120, stockQuantity = 2, createdAt = 1 \<rparr>"

definition a_store :: store where
  "a_store = \<lparr> products = [1 \<mapsto> mango, 2 \<mapsto> lulo], orders = [], tick = 3 \<rparr>"

section \<open>The other product and order operations\<close>

text \<open>
  Modelled from the spec: updating a product (sections 4.1, 4.2 and 7); the handler
  \<^verbatim>\<open>update-product\<close> is declared by the stack but is not in the sources. The product
  must exist, the caller must be its seller, and a negative price or quantity is a
  validation error. The id, the seller and \<^verbatim>\<open>createdAt\<close> are kept.
\<close>

definition updateProduct ::
  "user option \<Rightarrow> nat \<Rightarrow> product_body \<Rightarrow> store \<Rightarrow> (failure + product) \<times> store" where
  "updateProduct caller pid b st =
     (case products st pid of
        None \<Rightarrow> (Inl NotFound, st)
      | Some p \<Rightarrow>
        (case authorize caller Update (ProductResource (Some p)) of
           Deny reason \<Rightarrow> (Inl (AuthorizationError reason), st)
         | Allow \<Rightarrow>
             if body_price b < 0 \<or> body_stockQuantity b < 0
             then (Inl (ValidationError [''price and stockQuantity must not be negative'']), st)
             else
               (let p' = p \<lparr> marketId := body_marketId b, category := body_category b,
                            name := body_name b, price := body_price b,
                            stockQuantity := body_stockQuantity b \<rparr>
                in (Inr p', st \<lparr> products := (products st)(pid \<mapsto> p') \<rparr>))))"

text \<open>
  Modelled from the spec: deleting a product (sections 3, 4.1 and 4.2); the handler
  \<^verbatim>\<open>delete-product\<close> is declared by the stack but is not in the sources.
\<close>

definition deleteProduct ::
  "user option \<Rightarrow> nat \<Rightarrow> store \<Rightarrow> (failure + unit) \<times> store" where
  "deleteProduct caller pid st =
     (case products st pid of
        None \<Rightarrow> (Inl NotFound, st)
      | Some p \<Rightarrow>
        (case authorize caller Delete (ProductResource (Some p)) of
           Deny reason \<Rightarrow> (Inl (AuthorizationError reason), st)
         | Allow \<Rightarrow> (Inr (), st \<lparr> products := (products st)(pid := None) \<rparr>)))"

text \<open>
  Modelled from the spec: \<^verbatim>\<open>POST /orders\<close> (sections 4.2 and 4.4): the caller must have
  role customer or both, and the order is placed for the caller's own id.
\<close>

definition createOrder ::
  "user option \<Rightarrow> line_item list \<Rightarrow> store \<Rightarrow> (failure + order) \<times> store" where
  "createOrder caller lis st =
     (case authorize caller Create (OrderResource None) of
        Deny reason \<Rightarrow> (Inl (AuthorizationError reason), st)
      | Allow \<Rightarrow>
        (case caller of
           None \<Rightarrow> (Inl (AuthorizationError ''no caller''), st)
         | Some u \<Rightarrow> placeOrder (user_id u) lis st))"

text \<open>
  Modelled from the spec: \<^verbatim>\<open>GET /orders\<close> (section 4.2): the orders the caller may read.
\<close>

definition getUserOrders :: "user option \<Rightarrow> store \<Rightarrow> order list" where
  "getUserOrders caller st =
     filter (\<lambda>ord. authorize caller Read (OrderResource (Some ord)) = Allow) (orders st)"

section \<open>The service as a whole\<close>

text \<open>
  The routes that \<^verbatim>\<open>ApiStack\<close> declares, each with what the request carries. The state
  of the service is the store of products and orders together with the DynamoDB world
  the two implemented handlers scan.
\<close>

datatype operation =
    GetProducts event
  | GetMarkets event
  | PostProduct "user option" product_body
  | PutProduct "user option" nat product_body
  | DeleteProduct "user option" nat
  | PostOrder "user option" "line_item list"
  | GetOrders "user option"

record system =
  db :: store
  dynamo :: world

text \<open>
  The world a scan meets: the table that \<^verbatim>\<open>PRODUCTS_TABLE_NAME\<close> names presents the
  stored products. How it lays them out as items, and in which order, is the parameter
  \<open>view\<close>.
\<close>

definition scanned_world ::
  "(string \<rightharpoonup> string) \<Rightarrow> (store \<Rightarrow> item list) \<Rightarrow> system \<Rightarrow> world" where
  "scanned_world env view sys =
     (case env ''PRODUCTS_TABLE_NAME'' of
        None \<Rightarrow> dynamo sys
      | Some t \<Rightarrow> (dynamo sys) \<lparr> tables := (tables (dynamo sys))(t \<mapsto> view (db sys)) \<rparr>)"

text \<open>
  One request, as a step of the state. The two \<^verbatim>\<open>GET\<close> handlers are the code; what
  they leave behind is the client's call count. The other routes are the modelled
  operations. Responses are not part of the state.
\<close>

fun serve ::
  "(string \<rightharpoonup> string) \<Rightarrow> (store \<Rightarrow> item list) \<Rightarrow> operation \<Rightarrow> system \<Rightarrow> system" where
  "serve env view (GetProducts ev) sys =
     sys \<lparr> dynamo := (dynamo sys)
       \<lparr> calls := calls (snd (get_products_handler env dynamo_send ev
                                (scanned_world env view sys))) \<rparr> \<rparr>"
| "serve env view (GetMarkets ev) sys =
     sys \<lparr> dynamo := (dynamo sys)
       \<lparr> calls := calls (snd (get_markets_handler env dynamo_send ev
                                (scanned_world env view sys))) \<rparr> \<rparr>"
| "serve env view (PostProduct caller b) sys =
     sys \<lparr> db := snd (createProduct caller b (db sys)) \<rparr>"
| "serve env view (PutProduct caller pid b) sys =
     sys \<lparr> db := snd (updateProduct caller pid b (db sys)) \<rparr>"
| "serve env view (DeleteProduct caller pid) sys =
     sys \<lparr> db := snd (deleteProduct caller pid (db sys)) \<rparr>"
| "serve env view (PostOrder caller lis) sys =
     sys \<lparr> db := snd (createOrder caller lis (db sys)) \<rparr>"
| "serve env view (GetOrders caller) sys = sys"

fun run ::
  "(string \<rightharpoonup> string) \<Rightarrow> (store \<Rightarrow> item list) \<Rightarrow> operation list \<Rightarrow> system \<Rightarrow> system" where
  "run env view [] sys = sys"
| "run env view (op # ops) sys = run env view ops (serve env view op sys)"

text \<open>
  The invariant: every stored product has a stock quantity that is not negative, and an
  id that \<open>tick\<close> has already passed, so that a new product never takes its place.
\<close>

definition store_ok :: "store \<Rightarrow> bool" where
  "store_ok st = (\<forall>k p. products st k = Some p \<longrightarrow> k < tick st \<and> 0 \<le> stockQuantity p)"

definition stock_of :: "store \<Rightarrow> nat \<Rightarrow> int option" where
  "stock_of st pid = map_option stockQuantity (products st pid)"

definition owner_of :: "store \<Rightarrow> nat \<Rightarrow> nat option" where
  "owner_of st pid = map_option sellerId (products st pid)"

text \<open>
  Who acts on product \<open>pid\<close>: the order placement engine, or a seller writing a product
  of their own: the creator of \<open>pid\<close>, which was not there before and is theirs
  afterwards, or the caller of an update or a deletion of \<open>pid\<close> who owned it before.
\<close>

fun is_order_placement :: "operation \<Rightarrow> bool" where
  "is_order_placement (PostOrder caller lis) = True"
| "is_order_placement other = False"

fun is_owning_seller :: "operation \<Rightarrow> store \<Rightarrow> store \<Rightarrow> nat \<Rightarrow> bool" where
  "is_owning_seller (PostProduct (Some u) b) st st' pid =
     (owner_of st pid = None \<and> owner_of st' pid = Some (user_id u))"
| "is_owning_seller (PutProduct (Some u) k b) st st' pid =
     (k = pid \<and> owner_of st pid = Some (user_id u))"
| "is_owning_seller (DeleteProduct (Some u) k) st st' pid =
     (k = pid \<and> owner_of st pid = Some (user_id u))"
| "is_owning_seller other st st' pid = False"

text \<open>One layout of the stored products as items, in id order, and a sample system.\<close>

definition product_item :: "product \<Rightarrow> item" where
  "product_item p =
     [(''id'', JNumber (int (product_id p))), (''sellerId'', JNumber (int (sellerId p))),
      (''marketId'', JNumber (int (marketId p))), (''category'', JString (category p)),
      (''name'', JString (name p)), (''price'', JNumber (price p)),
      (''stockQuantity'', JNumber (stockQuantity p)),
      (''createdAt'', JNumber (int (createdAt p)))]"

definition product_rows :: "store \<Rightarrow> item list" where
  "product_rows st =
     List.map_filter (\<lambda>k. map_option product_item (products st k)) [0..<tick st]"

definition a_system :: system where
  "a_system = \<lparr> db = a_store, dynamo = sample_world \<rparr>"

definition restock :: product_body where
  "restock = \<lparr> body_sellerId = None, body_marketId = 1, body_category = ''fruit'',
               body_name = ''Mango'', body_price = 260, body_stockQuantity = 9 \<rparr>"

section \<open>Concurrent order placements\<close>

text \<open>
  Modelled from the spec: one invocation of \<^verbatim>\<open>placeOrder\<close> as section 5 describes it,
  a sequence of storage calls, each atomic on its own, between which other invocations
  may run. An invocation has yet to validate (\<open>Start\<close>), is decrementing its line items
  in list order, is rolling back what it has decremented, or has ended with its order or
  with a failure. \<open>Decrementing\<close> carries the buyer, the seller and the snapshotted
  lines for the order to come, the items already decremented, the latest first, and the
  items still to do.
\<close>

datatype placement =
    Start nat "line_item list"
  | Decrementing nat "nat option" "order_line list" "line_item list" "line_item list"
  | RollingBack "line_item list"
  | Succeeded order
  | Failed failure

text \<open>
  Modelled from the spec: the next storage call of an invocation (section 4.4, steps 1
  to 5): validation with the snapshot, one conditional decrement, one re-increment, or
  the write of the order. Validation only reads what no placement writes, so it is one
  step.
\<close>

fun place_step :: "placement \<Rightarrow> store \<Rightarrow> placement \<times> store" where
  "place_step (Start buyerId lis) st =
     (case snapshot st lis of
        None \<Rightarrow> (Failed ProductNotFound, st)
      | Some lines \<Rightarrow>
          (Decrementing buyerId
             (case lis of
                [] \<Rightarrow> None
              | li # _ \<Rightarrow> map_option sellerId (products st (productId li)))
             lines [] lis, st))"
| "place_step (Decrementing buyerId seller lines applied (li # todo)) st =
     (case conditional_decrement (productId li) (quantity li) st of
        None \<Rightarrow> (RollingBack applied, st)
      | Some st' \<Rightarrow> (Decrementing buyerId seller lines (li # applied) todo, st'))"
| "place_step (Decrementing buyerId seller lines applied []) st =
     (let ord = \<lparr> order_id = tick st, userId = buyerId, order_sellerId = seller,
                  lineItems = lines, status = Pending, order_createdAt = tick st \<rparr>
      in (Succeeded ord, st \<lparr> orders := orders st @ [ord], tick := Suc (tick st) \<rparr>))"
| "place_step (RollingBack (li # applied)) st =
     (RollingBack applied, increment (productId li) (quantity li) st)"
| "place_step (RollingBack []) st = (Failed InsufficientStock, st)"
| "place_step (Succeeded ord) st = (Succeeded ord, st)"
| "place_step (Failed f) st = (Failed f, st)"

text \<open>
  Modelled from the spec: the concurrency of section 5, invocations running against one
  store with no order between their storage calls. A schedule names, step by step, the
  invocation whose next storage call is made; every interleaving of the invocations is
  some schedule.
\<close>

definition step_at ::
  "nat \<Rightarrow> placement list \<times> store \<Rightarrow> placement list \<times> store" where
  "step_at i c =
     (case c of
        (ps, st) \<Rightarrow>
          if i < length ps
          then (case place_step (ps ! i) st of (p', st') \<Rightarrow> (ps[i := p'], st'))
          else (ps, st))"

fun interleave ::
  "nat list \<Rightarrow> placement list \<times> store \<Rightarrow> placement list \<times> store" where
  "interleave [] c = c"
| "interleave (i # sched) c = interleave sched (step_at i c)"

text \<open>An invocation running alone for \<open>n\<close> steps.\<close>

fun steps :: "nat \<Rightarrow> placement \<Rightarrow> store \<Rightarrow> placement \<times> store" where
  "steps 0 pl st = (pl, st)"
| "steps (Suc n) pl st = (case place_step pl st of (pl', st') \<Rightarrow> steps n pl' st')"

text \<open>How a finished invocation shows the outcome of \<open>placeOrder\<close>.\<close>

fun outcome :: "(failure + order) \<times> store \<Rightarrow> placement \<times> store" where
  "outcome (Inl f, st) = (Failed f, st)"
| "outcome (Inr ord, st) = (Succeeded ord, st)"

text \<open>
  The quantity of product \<open>pid\<close> in a list of line items and in an order; the quantity an
  invocation has taken from the stock and not given back; and the quantity it has
  successfully ordered.
\<close>

definition quantity_of :: "nat \<Rightarrow> line_item list \<Rightarrow> int" where
  "quantity_of pid lis = sum_list (map quantity (filter (\<lambda>li. productId li = pid) lis))"

definition ordered_of :: "nat \<Rightarrow> order_line list \<Rightarrow> int" where
  "ordered_of pid lines =
     sum_list (map line_quantity (filter (\<lambda>l. line_productId l = pid) lines))"

fun held :: "nat \<Rightarrow> placement \<Rightarrow> int" where
  "held pid (Start buyerId lis) = 0"
| "held pid (Decrementing buyerId seller lines applied todo) = quantity_of pid applied"
| "held pid (RollingBack applied) = quantity_of pid applied"
| "held pid (Succeeded ord) = ordered_of pid (lineItems ord)"
| "held pid (Failed f) = 0"

fun placed :: "nat \<Rightarrow> placement \<Rightarrow> int" where
  "placed pid (Succeeded ord) = ordered_of pid (lineItems ord)"
| "placed pid other = 0"

text \<open>
  What validation has established of an invocation: quantities are positive, and the
  snapshotted lines are the line items of the request.
\<close>

fun placement_ok :: "placement \<Rightarrow> bool" where
  "placement_ok (Decrementing buyerId seller lines applied todo) =
     (list_all (\<lambda>li. 0 < quantity li) (applied @ todo) \<and>
      map (\<lambda>l. (line_productId l, line_quantity l)) lines =
        map (\<lambda>li. (productId li, quantity li)) (rev applied @ todo))"
| "placement_ok (RollingBack applied) = list_all (\<lambda>li. 0 < quantity li) applied"
| "placement_ok (Succeeded ord) = list_all (\<lambda>l. 0 < line_quantity l) (lineItems ord)"
| "placement_ok other = True"

text \<open>
  The invariant of the interleaved run for a product of initial stock \<open>S\<close>: the product
  is there, its stock is not negative, and stock and quantities taken add up to \<open>S\<close>.
\<close>

definition conserves :: "nat \<Rightarrow> int \<Rightarrow> placement list \<times> store \<Rightarrow> bool" where
  "conserves pid S c =
     (case c of
        (ps, st) \<Rightarrow>
          list_all placement_ok ps \<and>
          (case products st pid of
             None \<Rightarrow> False
           | Some p \<Rightarrow>
               0 \<le> stockQuantity p \<and>
               stockQuantity p + sum_list (map (held pid) ps) = S))"

text \<open>An invocation has ended when it holds its order or its failure.\<close>

fun ended :: "placement \<Rightarrow> bool" where
  "ended (Succeeded ord) = True"
| "ended (Failed f) = True"
| "ended other = False"

text \<open>The scenario of section 8: stock 5, two orders of 3 each.\<close>

definition two_buyers :: "placement list" where
  "two_buyers = [Start 7 [\<lparr> productId = 1, quantity = 3 \<rparr>],
                 Start 9 [\<lparr> productId = 1, quantity = 3 \<rparr>]]"

section \<open>Basic facts\<close>

lemma get_markets_handler_state:
  "snd (get_markets_handler env send ev s) = snd (send (get_markets_command env ev) s)"
  by (cases "send (get_markets_command env ev) s")
     (auto simp: get_markets_handler_def split: sum.splits)

lemma get_products_handler_state:
  "snd (get_products_handler env send ev s) = snd (send (get_products_command env ev) s)"
  by (cases "send (get_products_command env ev) s")
     (auto simp: get_products_handler_def split: sum.splits)

lemma get_markets_handler_Inl:
  "fst (send (get_markets_command env ev) s) = Inl e \<Longrightarrow>
   fst (get_markets_handler env send ev s) =
     \<lparr> statusCode = 500, headers = failure_headers,
       body = JObject [(''error'', JString ''Failed to fetch markets''),
                       (''message'', JString (failure_message e))] \<rparr>"
  by (cases "send (get_markets_command env ev) s")
     (auto simp: get_markets_handler_def get_markets_catch_def split: sum.splits)

lemma get_products_handler_Inl:
  "fst (send (get_products_command env ev) s) = Inl e \<Longrightarrow>
   fst (get_products_handler env send ev s) =
     \<lparr> statusCode = 500, headers = failure_headers,
       body = JObject [(''error'', JString ''Failed to fetch products''),
                       (''message'', JString (failure_message e))] \<rparr>"
  by (cases "send (get_products_command env ev) s")
     (auto simp: get_products_handler_def get_products_catch_def split: sum.splits)

lemma holds_bigint_body:
  "holds_bigint (JObject [(k, JArray xs), (k', JNumber c)]) = holds_bigint (JArray xs)"
  by simp

lemma get_markets_handler_Inr:
  "fst (send (get_markets_command env ev) s) = Inr out \<Longrightarrow>
   \<not> holds_bigint (JArray (map JObject (items_or_empty out))) \<Longrightarrow>
   fst (get_markets_handler env send ev s) =
     \<lparr> statusCode = 200, headers = success_headers,
       body = JObject [(''markets'', JArray (map JObject (items_or_empty out))),
                       (''count'', JNumber (count_or_zero out))] \<rparr>"
  by (cases "send (get_markets_command env ev) s")
     (simp add: get_markets_handler_def JSON_stringify_def holds_bigint_body
        del: holds_bigint.simps)

lemma get_products_handler_Inr:
  "fst (send (get_products_command env ev) s) = Inr out \<Longrightarrow>
   \<not> holds_bigint (JArray (map JObject (items_or_empty out))) \<Longrightarrow>
   fst (get_products_handler env send ev s) =
     \<lparr> statusCode = 200, headers = success_headers,
       body = JObject [(''products'', JArray (map JObject (items_or_empty out))),
                       (''count'', JNumber (count_or_zero out))] \<rparr>"
  by (cases "send (get_products_command env ev) s")
     (simp add: get_products_handler_def JSON_stringify_def holds_bigint_body
        del: holds_bigint.simps)

lemma get_markets_handler_bigint:
  "fst (send (get_markets_command env ev) s) = Inr out \<Longrightarrow>
   holds_bigint (JArray (map JObject (items_or_empty out))) \<Longrightarrow>
   fst (get_markets_handler env send ev s) =
     \<lparr> statusCode = 500, headers = failure_headers,
       body = JObject [(''error'', JString ''Failed to fetch markets''),
                       (''message'', JString ''Do not know how to serialize a BigInt'')] \<rparr>"
  by (cases "send (get_markets_command env ev) s")
     (simp add: get_markets_handler_def JSON_stringify_def holds_bigint_body
        get_markets_catch_def del: holds_bigint.simps)

lemma get_products_handler_bigint:
  "fst (send (get_products_command env ev) s) = Inr out \<Longrightarrow>
   holds_bigint (JArray (map JObject (items_or_empty out))) \<Longrightarrow>
   fst (get_products_handler env send ev s) =
     \<lparr> statusCode = 500, headers = failure_headers,
       body = JObject [(''error'', JString ''Failed to fetch products''),
                       (''message'', JString ''Do not know how to serialize a BigInt'')] \<rparr>"
  by (cases "send (get_products_command env ev) s")
     (simp add: get_products_handler_def JSON_stringify_def holds_bigint_body
        get_products_catch_def del: holds_bigint.simps)


lemma dynamo_send_tables: "tables (snd (dynamo_send c w)) = tables w"
  by (cases c) simp

lemma dynamo_send_calls: "calls (snd (dynamo_send c w)) = Suc (calls w)"
  by (cases c) simp

lemma dynamo_send_fault:
  "faults w (calls w) = Some e \<Longrightarrow> fst (dynamo_send c w) = Inl e"
  by (cases c) simp

lemma get_markets_command_filtered:
  "query_param ev ''city'' = Some c \<Longrightarrow> c \<noteq> [] \<Longrightarrow>
   get_markets_command env ev =
     ScanCommand \<lparr> TableName = env ''MARKETS_TABLE_NAME'',
                   FilterExpression = Some ''city = :city'',
                   ExpressionAttributeValues = Some [('':city'', JString c)] \<rparr>"
  by (simp add: get_markets_command_def truthy_def)

lemma get_markets_command_unfiltered:
  "\<not> truthy (query_param ev ''city'') \<Longrightarrow>
   get_markets_command env ev =
     ScanCommand \<lparr> TableName = env ''MARKETS_TABLE_NAME'',
                   FilterExpression = None,
                   ExpressionAttributeValues = None \<rparr>"
  by (simp add: get_markets_command_def truthy_def split: option.splits)

lemma get_products_command_filtered:
  "query_param ev ''marketId'' = Some m \<Longrightarrow> m \<noteq> [] \<Longrightarrow>
   get_products_command env ev =
     ScanCommand \<lparr> TableName = env ''PRODUCTS_TABLE_NAME'',
                   FilterExpression = Some ''marketId = :marketId'',
                   ExpressionAttributeValues = Some [('':marketId'', JString m)] \<rparr>"
  by (simp add: get_products_command_def truthy_def)

lemma get_products_command_unfiltered:
  "\<not> truthy (query_param ev ''marketId'') \<Longrightarrow>
   get_products_command env ev =
     ScanCommand \<lparr> TableName = env ''PRODUCTS_TABLE_NAME'',
                   FilterExpression = None,
                   ExpressionAttributeValues = None \<rparr>"
  by (simp add: get_products_command_def truthy_def split: option.splits)

lemma scan_filters_city:
  "scan_filters \<lparr> TableName = t, FilterExpression = Some ''city = :city'',
                  ExpressionAttributeValues = Some [('':city'', v)] \<rparr> = Some [(''city'', v)]"
  by (simp add: scan_filters_def)

lemma scan_filters_marketId:
  "scan_filters \<lparr> TableName = t, FilterExpression = Some ''marketId = :marketId'',
                  ExpressionAttributeValues = Some [('':marketId'', v)] \<rparr> =
   Some [(''marketId'', v)]"
  by (simp add: scan_filters_def)

lemma scan_filters_none:
  "scan_filters \<lparr> TableName = t, FilterExpression = None,
                  ExpressionAttributeValues = vs \<rparr> = Some []"
  by (simp add: scan_filters_def)




















section \<open>Status codes and bodies of the handlers\<close>

text \<open>
  C10. The handlers are total functions of the event, the environment and the client's
  answer, so an invocation whose storage call returns or throws ends with a response. Its
  status code is 200 or 500 and nothing else. It is 500 when the client throws, whatever
  it throws. When the client resolves, it is 200, with the item list \<^verbatim>\<open>[]\<close> when
  \<^verbatim>\<open>Items\<close> is missing and the count \<^verbatim>\<open>0\<close> when \<^verbatim>\<open>Count\<close> is missing, unless an
  item holds a BigInt: then serialising the body throws inside the \<^verbatim>\<open>try\<close> block and
  the answer is 500 as well. The event is arbitrary, so \<^verbatim>\<open>queryStringParameters\<close> may
  be \<^verbatim>\<open>null\<close>.
\<close>

theorem handlers_answer_200_or_500:
  fixes send :: "'s doc_client"
  shows
  "(statusCode (fst (get_products_handler env send ev s)) = 200 \<or>
    statusCode (fst (get_products_handler env send ev s)) = 500) \<and>
   (statusCode (fst (get_markets_handler env send ev s)) = 200 \<or>
    statusCode (fst (get_markets_handler env send ev s)) = 500) \<and>
   (\<forall>e. fst (send (get_products_command env ev) s) = Inl e \<longrightarrow>
      statusCode (fst (get_products_handler env send ev s)) = 500) \<and>
   (\<forall>e. fst (send (get_markets_command env ev) s) = Inl e \<longrightarrow>
      statusCode (fst (get_markets_handler env send ev s)) = 500) \<and>
   (\<forall>out. fst (send (get_products_command env ev) s) = Inr out \<and>
      \<not> holds_bigint (JArray (map JObject (case Items out of None \<Rightarrow> [] | Some xs \<Rightarrow> xs))) \<longrightarrow>
      statusCode (fst (get_products_handler env send ev s)) = 200 \<and>
      body (fst (get_products_handler env send ev s)) =
        JObject [(''products'',
                  JArray (map JObject (case Items out of None \<Rightarrow> [] | Some xs \<Rightarrow> xs))),
                 (''count'', JNumber (case Count out of None \<Rightarrow> 0 | Some c \<Rightarrow> c))]) \<and>
   (\<forall>out. fst (send (get_markets_command env ev) s) = Inr out \<and>
      \<not> holds_bigint (JArray (map JObject (case Items out of None \<Rightarrow> [] | Some xs \<Rightarrow> xs))) \<longrightarrow>
      statusCode (fst (get_markets_handler env send ev s)) = 200 \<and>
      body (fst (get_markets_handler env send ev s)) =
        JObject [(''markets'',
                  JArray (map JObject (case Items out of None \<Rightarrow> [] | Some xs \<Rightarrow> xs))),
                 (''count'', JNumber (case Count out of None \<Rightarrow> 0 | Some c \<Rightarrow> c))]) \<and>
   (\<forall>out. fst (send (get_products_command env ev) s) = Inr out \<and>
      holds_bigint (JArray (map JObject (case Items out of None \<Rightarrow> [] | Some xs \<Rightarrow> xs))) \<longrightarrow>
      statusCode (fst (get_products_handler env send ev s)) = 500) \<and>
   (\<forall>out. fst (send (get_markets_command env ev) s) = Inr out \<and>
      holds_bigint (JArray (map JObject (case Items out of None \<Rightarrow> [] | Some xs \<Rightarrow> xs))) \<longrightarrow>
      statusCode (fst (get_markets_handler env send ev s)) = 500)"
proof -
  have c: "count_or_zero out = (case Count out of None \<Rightarrow> 0 | Some c \<Rightarrow> c)" for out
    by (simp add: count_or_zero_def split: option.splits)
  have i: "(case Items out of None \<Rightarrow> [] | Some xs \<Rightarrow> xs) = items_or_empty out" for out
    by (simp add: items_or_empty_def)
  have p: "statusCode (fst (get_products_handler env send ev s)) = 200 \<or>
           statusCode (fst (get_products_handler env send ev s)) = 500"
  proof (cases "fst (send (get_products_command env ev) s)")
    case (Inl e)
    then show ?thesis by (simp add: get_products_handler_Inl)
  next
    case (Inr out)
    then show ?thesis
      by (cases "holds_bigint (JArray (map JObject (items_or_empty out)))")
         (simp_all add: get_products_handler_Inr get_products_handler_bigint
            del: holds_bigint.simps)
  qed
  have m: "statusCode (fst (get_markets_handler env send ev s)) = 200 \<or>
           statusCode (fst (get_markets_handler env send ev s)) = 500"
  proof (cases "fst (send (get_markets_command env ev) s)")
    case (Inl e)
    then show ?thesis by (simp add: get_markets_handler_Inl)
  next
    case (Inr out)
    then show ?thesis
      by (cases "holds_bigint (JArray (map JObject (items_or_empty out)))")
         (simp_all add: get_markets_handler_Inr get_markets_handler_bigint
            del: holds_bigint.simps)
  qed
  show ?thesis
    unfolding i
    using p m
    by (simp add: get_products_handler_Inl get_products_handler_Inr
        get_markets_handler_Inl get_markets_handler_Inr get_products_handler_bigint
        get_markets_handler_bigint c del: holds_bigint.simps)
qed

theorem handlers_answer_200_or_500_witness:
  "statusCode (fst (get_products_handler Map.empty
      (\<lambda>c s. (Inr \<lparr> Items = None, Count = None \<rparr>, s))
      \<lparr> queryStringParameters = None \<rparr> ())) = 200 \<and>
   body (fst (get_products_handler Map.empty
      (\<lambda>c s. (Inr \<lparr> Items = None, Count = None \<rparr>, s))
      \<lparr> queryStringParameters = None \<rparr> ())) =
     JObject [(''products'', JArray []), (''count'', JNumber 0)] \<and>
   statusCode (fst (get_markets_handler Map.empty
      (\<lambda>c s. (Inl (NonError JNull), s))
      \<lparr> queryStringParameters = None \<rparr> ())) = 500 \<and>
   statusCode (fst (get_products_handler Map.empty
      (\<lambda>c s. (Inr \<lparr> Items = Some [durian], Count = Some 1 \<rparr>, s))
      \<lparr> queryStringParameters = None \<rparr> ())) = 500"
  using handlers_answer_200_or_500
    [where send = "\<lambda>c s. (Inr \<lparr> Items = None, Count = None \<rparr>, s)"
       and env = Map.empty and ev = "\<lparr> queryStringParameters = None \<rparr>" and s = "()"]
    handlers_answer_200_or_500
    [where send = "\<lambda>c s. (Inl (NonError JNull), s)"
       and env = Map.empty and ev = "\<lparr> queryStringParameters = None \<rparr>" and s = "()"]
    handlers_answer_200_or_500
    [where send = "\<lambda>c s. (Inr \<lparr> Items = Some [durian], Count = Some 1 \<rparr>, s)"
       and env = Map.empty and ev = "\<lparr> queryStringParameters = None \<rparr>" and s = "()"]
  by (simp add: durian_def)

section \<open>Filtering by city and by market\<close>







section \<open>Scans and index lookups\<close>

text \<open>
  C5, as stated, fails. \<^verbatim>\<open>marketId\<close> is the key of the products table's
  \<^verbatim>\<open>marketId-index\<close>, and the planner of the specification answers a filter on it with
  a lookup in that index, but the command \<^verbatim>\<open>get-products\<close> builds for that filter is a
  scan of the whole table.
\<close>

theorem planner_index_lookup_counterexample:
  "(''marketId-index'', ''marketId'', Some ''createdAt'') \<in> set (secondary_indexes Products) \<and>
   spec_plan Products [(''marketId'', JString ''market-123'')] =
     IndexLookup ''marketId-index'' (JString ''market-123'') (Some ''createdAt'') \<and>
   executed_op (get_products_command sample_env market_query) =
     Some (FullScan [(''marketId'', JString ''market-123'')]) \<and>
   executed_op (get_products_command sample_env market_query) \<noteq>
     Some (spec_plan Products [(''marketId'', JString ''market-123'')])"
proof -
  have q: "query_param market_query ''marketId'' = Some ''market-123''"
    by (simp add: query_param_def market_query_def)
  have "executed_op (get_products_command sample_env market_query) =
     Some (FullScan [(''marketId'', JString ''market-123'')])"
    using q by (simp add: get_products_command_filtered scan_filters_marketId)
  then show ?thesis
    by (simp add: spec_plan_def)
qed

text \<open>
  C5, amended. Whatever the query parameters, both handlers run a scan of the whole
  table and never an index lookup. The scan carries one equality filter, on
  \<^verbatim>\<open>marketId\<close> for products and on \<^verbatim>\<open>city\<close> for markets, when that parameter is a
  non-empty string, and no filter otherwise; every other parameter is ignored.
\<close>

theorem handlers_always_scan:
  "executed_op (get_products_command env ev) =
     Some (FullScan (case query_param ev ''marketId'' of
                       None \<Rightarrow> []
                     | Some m \<Rightarrow> if m = [] then [] else [(''marketId'', JString m)])) \<and>
   executed_op (get_markets_command env ev) =
     Some (FullScan (case query_param ev ''city'' of
                       None \<Rightarrow> []
                     | Some c \<Rightarrow> if c = [] then [] else [(''city'', JString c)]))"
proof -
  have p: "executed_op (get_products_command env ev) =
     Some (FullScan (case query_param ev ''marketId'' of
                       None \<Rightarrow> []
                     | Some m \<Rightarrow> if m = [] then [] else [(''marketId'', JString m)]))"
  proof (cases "truthy (query_param ev ''marketId'')")
    case True
    then obtain m where m: "query_param ev ''marketId'' = Some m" "m \<noteq> []"
      by (auto simp: truthy_def split: option.splits)
    show ?thesis
      unfolding get_products_command_filtered [OF m, of env]
      using m by (simp add: scan_filters_marketId)
  next
    case False
    show ?thesis
      unfolding get_products_command_unfiltered [OF False, of env]
      using False by (auto simp: scan_filters_none truthy_def split: option.splits)
  qed
  have m: "executed_op (get_markets_command env ev) =
     Some (FullScan (case query_param ev ''city'' of
                       None \<Rightarrow> []
                     | Some c \<Rightarrow> if c = [] then [] else [(''city'', JString c)]))"
  proof (cases "truthy (query_param ev ''city'')")
    case True
    then obtain c where c: "query_param ev ''city'' = Some c" "c \<noteq> []"
      by (auto simp: truthy_def split: option.splits)
    show ?thesis
      unfolding get_markets_command_filtered [OF c, of env]
      using c by (simp add: scan_filters_city)
  next
    case False
    show ?thesis
      unfolding get_markets_command_unfiltered [OF False, of env]
      using False by (auto simp: scan_filters_none truthy_def split: option.splits)
  qed
  show ?thesis
    using p m by simp
qed

theorem handlers_always_scan_witness:
  "executed_op (get_products_command sample_env market_query) =
     Some (FullScan [(''marketId'', JString ''market-123'')]) \<and>
   executed_op (get_markets_command sample_env medellin_query) =
     Some (FullScan [(''city'', JString ''Medellin'')]) \<and>
   executed_op (get_markets_command sample_env market_query) = Some (FullScan [])"
  using handlers_always_scan [of sample_env market_query]
    handlers_always_scan [of sample_env medellin_query]
  by (simp add: query_param_def market_query_def medellin_query_def)

section \<open>Storage failures\<close>

text \<open>
  C8, as stated, fails. The first call of \<open>outage_world\<close> is refused with
  \<^verbatim>\<open>ServiceUnavailable\<close> and its second call would be answered, yet the handler returns
  500, not 503, after that single call.
\<close>

theorem storage_unavailable_counterexample:
  "faults outage_world (calls outage_world) = Some service_unavailable \<and>
   faults outage_world (Suc (calls outage_world)) = None \<and>
   statusCode (fst (get_markets_handler sample_env dynamo_send no_query outage_world)) = 500 \<and>
   statusCode (fst (get_markets_handler sample_env dynamo_send no_query outage_world)) \<noteq> 503 \<and>
   calls (snd (get_markets_handler sample_env dynamo_send no_query outage_world)) =
     Suc (calls outage_world)"
proof -
  have f: "faults outage_world (calls outage_world) = Some service_unavailable"
    by (simp add: outage_world_def sample_world_def)
  have g: "faults outage_world (Suc (calls outage_world)) = None"
    by (simp add: outage_world_def sample_world_def)
  have "fst (dynamo_send (get_markets_command sample_env no_query) outage_world) =
        Inl service_unavailable"
    using f by (rule dynamo_send_fault)
  then have "statusCode (fst (get_markets_handler sample_env dynamo_send no_query outage_world)) = 500"
    by (simp add: get_markets_handler_Inl)
  then show ?thesis
    using f g by (simp add: get_markets_handler_state dynamo_send_calls)
qed

text \<open>
  C8, amended. Whatever error the storage call throws, a \<^verbatim>\<open>ServiceUnavailable\<close>
  included, both handlers answer 500, and they have called the client exactly once: no
  handler retries, and none answers 503.
\<close>

theorem storage_failure_is_500_after_one_call:
  assumes "faults w (calls w) = Some e"
  shows
  "statusCode (fst (get_markets_handler env dynamo_send ev w)) = 500 \<and>
   calls (snd (get_markets_handler env dynamo_send ev w)) = Suc (calls w) \<and>
   statusCode (fst (get_products_handler env dynamo_send ev w)) = 500 \<and>
   calls (snd (get_products_handler env dynamo_send ev w)) = Suc (calls w)"
proof -
  have "fst (dynamo_send (get_markets_command env ev) w) = Inl e"
    using assms by (rule dynamo_send_fault)
  moreover have "fst (dynamo_send (get_products_command env ev) w) = Inl e"
    using assms by (rule dynamo_send_fault)
  ultimately show ?thesis
    by (simp add: get_markets_handler_Inl get_products_handler_Inl
        get_markets_handler_state get_products_handler_state dynamo_send_calls)
qed

theorem storage_failure_is_500_after_one_call_witness:
  "faults outage_world (calls outage_world) = Some service_unavailable \<and>
   statusCode (fst (get_products_handler sample_env dynamo_send market_query outage_world)) = 500 \<and>
   calls (snd (get_products_handler sample_env dynamo_send market_query outage_world)) = 1"
proof -
  have f: "faults outage_world (calls outage_world) = Some service_unavailable"
    by (simp add: outage_world_def sample_world_def)
  have c: "calls outage_world = 0"
    by (simp add: outage_world_def sample_world_def)
  show ?thesis
    using storage_failure_is_500_after_one_call [OF f, of sample_env market_query] f c
    by simp
qed

section \<open>The body of a failure response\<close>

text \<open>
  C9, as stated, fails on the shared helper: \<^verbatim>\<open>errorResponse\<close> with its default status
  answers 500 with a body whose only key is \<^verbatim>\<open>error\<close>; it has no \<^verbatim>\<open>message\<close> field.
\<close>

theorem error_response_body_counterexample:
  "statusCode (errorResponse ''Database error'' None) = 500 \<and>
   body (errorResponse ''Database error'' None) =
     JObject [(''error'', JString ''Database error'')] \<and>
   object_keys (body (errorResponse ''Database error'' None)) \<noteq> [''error'', ''message'']"
  by (simp add: errorResponse_def)

text \<open>
  C9, amended. When the storage call throws, each handler answers 500 with a body of
  exactly the keys \<^verbatim>\<open>error\<close> and \<^verbatim>\<open>message\<close>: \<^verbatim>\<open>error\<close> is the handler's fixed
  text, and \<^verbatim>\<open>message\<close> is the thrown error's own message, or \<^verbatim>\<open>Unknown error\<close> when
  the thrown value is no \<^verbatim>\<open>Error\<close>. The stack of the error appears nowhere in the
  response. The helper \<^verbatim>\<open>errorResponse\<close> answers with the single key \<^verbatim>\<open>error\<close>.
\<close>

theorem failure_body_shape:
  fixes send :: "'s doc_client"
  shows
  "(fst (send (get_markets_command env ev) s) = Inl (JsError n m st) \<longrightarrow>
      fst (get_markets_handler env send ev s) =
        \<lparr> statusCode = 500, headers = failure_headers,
          body = JObject [(''error'', JString ''Failed to fetch markets''),
                          (''message'', JString m)] \<rparr>) \<and>
   (fst (send (get_products_command env ev) s) = Inl (JsError n m st) \<longrightarrow>
      fst (get_products_handler env send ev s) =
        \<lparr> statusCode = 500, headers = failure_headers,
          body = JObject [(''error'', JString ''Failed to fetch products''),
                          (''message'', JString m)] \<rparr>) \<and>
   (fst (send (get_markets_command env ev) s) = Inl (NonError v) \<longrightarrow>
      fst (get_markets_handler env send ev s) =
        \<lparr> statusCode = 500, headers = failure_headers,
          body = JObject [(''error'', JString ''Failed to fetch markets''),
                          (''message'', JString ''Unknown error'')] \<rparr>) \<and>
   (fst (send (get_products_command env ev) s) = Inl (NonError v) \<longrightarrow>
      fst (get_products_handler env send ev s) =
        \<lparr> statusCode = 500, headers = failure_headers,
          body = JObject [(''error'', JString ''Failed to fetch products''),
                          (''message'', JString ''Unknown error'')] \<rparr>) \<and>
   (\<forall>e. fst (send (get_markets_command env ev) s) = Inl e \<longrightarrow>
      object_keys (body (fst (get_markets_handler env send ev s))) = [''error'', ''message'']) \<and>
   (\<forall>e. fst (send (get_products_command env ev) s) = Inl e \<longrightarrow>
      object_keys (body (fst (get_products_handler env send ev s))) = [''error'', ''message'']) \<and>
   errorResponse msg None =
     \<lparr> statusCode = 500, headers = corsHeaders, body = JObject [(''error'', JString msg)] \<rparr>"
  by (simp add: get_markets_handler_Inl get_products_handler_Inl errorResponse_def)

theorem failure_body_shape_witness:
  "fst (get_products_handler sample_env
      (\<lambda>c s. (Inl (JsError ''Error'' ''Database error'' ''Error: Database error at send''), s))
      no_query ()) =
     \<lparr> statusCode = 500, headers = failure_headers,
       body = JObject [(''error'', JString ''Failed to fetch products''),
                       (''message'', JString ''Database error'')] \<rparr>"
  using failure_body_shape
    [where send = "\<lambda>c s. (Inl (JsError ''Error'' ''Database error''
        ''Error: Database error at send''), s)"
      and env = sample_env and ev = no_query and s = "()" and n = "''Error''"
      and m = "''Database error''" and st = "''Error: Database error at send''"]
  by simp

section \<open>Creating a product\<close>

text \<open>
  C7. Whatever the request body, a caller whose role is customer is denied by
  \<open>authorize\<close>; creating the product fails with that authorization error, which is
  surfaced as 403, and the store is untouched. For a caller with role seller or both,
  every product the call creates has the caller's id as its \<^verbatim>\<open>sellerId\<close>, whatever
  seller the body names, and a body with a non-negative price and quantity does create one.
\<close>

theorem create_product_authorization:
  "(role u = Customer \<longrightarrow>
      (\<exists>reason. authorize (Some u) Create (ProductResource None) = Deny reason \<and>
                createProduct (Some u) b st = (Inl (AuthorizationError reason), st) \<and>
                status_of (AuthorizationError reason) = 403)) \<and>
   (role u = Seller \<or> role u = Both \<longrightarrow>
      (\<forall>p. fst (createProduct (Some u) b st) = Inr p \<longrightarrow> sellerId p = user_id u)) \<and>
   ((role u = Seller \<or> role u = Both) \<and> 0 \<le> body_price b \<and> 0 \<le> body_stockQuantity b \<longrightarrow>
      (\<exists>p. fst (createProduct (Some u) b st) = Inr p \<and> sellerId p = user_id u \<and>
           products (snd (createProduct (Some u) b st)) (product_id p) = Some p))"
  by (auto simp: createProduct_def Let_def)

theorem create_product_authorization_witness:
  "role a_customer = Customer \<and>
   fst (createProduct (Some a_customer) forged_body a_store) =
     Inl (AuthorizationError ''creating a product requires role seller or both'') \<and>
   role a_seller = Seller \<and> body_sellerId forged_body = Some 99 \<and>
   map_sum id sellerId (fst (createProduct (Some a_seller) forged_body a_store)) = Inr 8"
proof -
  have c: "role a_customer = Customer"
    by (simp add: a_customer_def)
  have s: "role a_seller = Seller \<and> user_id a_seller = 8"
    by (simp add: a_seller_def)
  have b: "0 \<le> body_price forged_body \<and> 0 \<le> body_stockQuantity forged_body \<and>
           body_sellerId forged_body = Some 99"
    by (simp add: forged_body_def)
  have d: "authorize (Some a_customer) Create (ProductResource None) =
           Deny ''creating a product requires role seller or both''"
    by (simp add: a_customer_def)
  show ?thesis
    using create_product_authorization [of a_customer forged_body a_store]
      create_product_authorization [of a_seller forged_body a_store] c s b d
    by auto
qed

section \<open>Placing an order\<close>

lemma increment_conditional_decrement:
  "conditional_decrement pid q st = Some st' \<Longrightarrow> increment pid q st' = st"
  by (auto simp: conditional_decrement_def increment_def map_upd_triv
      split: option.splits if_splits)

lemma decrement_each_failure_restores:
  "decrement_each applied lis st = Inl st' \<Longrightarrow> st' = rollback applied st"
proof (induction lis arbitrary: applied st)
  case Nil
  then show ?case by simp
next
  case (Cons li lis)
  show ?case
  proof (cases "conditional_decrement (productId li) (quantity li) st")
    case None
    with Cons.prems show ?thesis by simp
  next
    case (Some st1)
    with Cons.prems have "decrement_each (li # applied) lis st1 = Inl st'"
      by simp
    then have "st' = rollback (li # applied) st1"
      by (rule Cons.IH)
    then show ?thesis
      using Some by (simp add: increment_conditional_decrement)
  qed
qed

lemma decrement_each_success_rollback:
  "decrement_each applied pre st = Inr st1 \<Longrightarrow>
   rollback (rev pre @ applied) st1 = rollback applied st"
proof (induction pre arbitrary: applied st)
  case Nil
  then show ?case by simp
next
  case (Cons li pre)
  show ?case
  proof (cases "conditional_decrement (productId li) (quantity li) st")
    case None
    with Cons.prems show ?thesis by simp
  next
    case (Some st2)
    with Cons.prems have "decrement_each (li # applied) pre st2 = Inr st1"
      by simp
    then have "rollback (rev pre @ li # applied) st1 = rollback (li # applied) st2"
      by (rule Cons.IH)
    then show ?thesis
      using Some by (simp add: increment_conditional_decrement)
  qed
qed

lemma decrement_each_append:
  "decrement_each applied pre st = Inr st1 \<Longrightarrow>
   decrement_each applied (pre @ rest) st = decrement_each (rev pre @ applied) rest st1"
proof (induction pre arbitrary: applied st)
  case Nil
  then show ?case by simp
next
  case (Cons li pre)
  show ?case
  proof (cases "conditional_decrement (productId li) (quantity li) st")
    case None
    with Cons.prems show ?thesis by simp
  next
    case (Some st2)
    with Cons.prems have "decrement_each (li # applied) pre st2 = Inr st1"
      by simp
    then have "decrement_each (li # applied) (pre @ rest) st2 =
               decrement_each (rev pre @ li # applied) rest st1"
      by (rule Cons.IH)
    then show ?thesis
      using Some by simp
  qed
qed

lemma placeOrder_insufficient_restores:
  "fst (placeOrder buyer lis st) = Inl InsufficientStock \<Longrightarrow> snd (placeOrder buyer lis st) = st"
proof -
  assume a: "fst (placeOrder buyer lis st) = Inl InsufficientStock"
  then obtain lines where l: "snapshot st lis = Some lines"
    by (cases "snapshot st lis") (auto simp: placeOrder_def)
  from a l obtain st' where d: "decrement_each [] lis st = Inl st'"
    by (cases "decrement_each [] lis st") (auto simp: placeOrder_def Let_def)
  then have "st' = st"
    using decrement_each_failure_restores [OF d] by simp
  with l d show ?thesis
    by (simp add: placeOrder_def)
qed

text \<open>
  C2. An order that ends with \<open>InsufficientStock\<close> leaves the store as it found it: no
  stock is changed and no order is stored. And whenever the order passes validation, the
  line items \<open>pre\<close> have been decremented, reaching \<open>st1\<close>, and the conditional
  decrement of the next line item \<open>li\<close> fails, then the call ends with
  \<open>InsufficientStock\<close> in the store obtained by re-incrementing every item of \<open>pre\<close>,
  which is the store the call started from.
\<close>

theorem placeOrder_all_or_nothing:
  "(fst (placeOrder buyer lis st) = Inl InsufficientStock \<longrightarrow>
      products (snd (placeOrder buyer lis st)) = products st \<and>
      orders (snd (placeOrder buyer lis st)) = orders st) \<and>
   (lis = pre @ li # post \<and> snapshot st lis \<noteq> None \<and>
    decrement_each [] pre st = Inr st1 \<and>
    conditional_decrement (productId li) (quantity li) st1 = None \<longrightarrow>
      placeOrder buyer lis st = (Inl InsufficientStock, rollback (rev pre) st1) \<and>
      rollback (rev pre) st1 = st)"
proof (intro conjI impI)
  assume "fst (placeOrder buyer lis st) = Inl InsufficientStock"
  then have "snd (placeOrder buyer lis st) = st"
    by (rule placeOrder_insufficient_restores)
  then show "products (snd (placeOrder buyer lis st)) = products st"
    and "orders (snd (placeOrder buyer lis st)) = orders st"
    by simp_all
next
  assume a: "lis = pre @ li # post \<and> snapshot st lis \<noteq> None \<and>
    decrement_each [] pre st = Inr st1 \<and>
    conditional_decrement (productId li) (quantity li) st1 = None"
  then have d: "decrement_each [] pre st = Inr st1"
    and f: "conditional_decrement (productId li) (quantity li) st1 = None"
    and l: "lis = pre @ li # post"
    by simp_all
  from a obtain lines where s: "snapshot st lis = Some lines"
    by auto
  have "decrement_each [] lis st = decrement_each (rev pre @ []) (li # post) st1"
    unfolding l using d by (rule decrement_each_append)
  then have e: "decrement_each [] lis st = Inl (rollback (rev pre) st1)"
    using f by simp
  show "placeOrder buyer lis st = (Inl InsufficientStock, rollback (rev pre) st1)"
    using s e by (simp add: placeOrder_def)
  show "rollback (rev pre) st1 = st"
    using decrement_each_success_rollback [OF d] by simp
qed

theorem placeOrder_all_or_nothing_witness:
  "conditional_decrement 1 3 a_store \<noteq> None \<and>
   placeOrder 7 [\<lparr> productId = 1, quantity = 3 \<rparr>, \<lparr> productId = 2, quantity = 10 \<rparr>] a_store =
     (Inl InsufficientStock, a_store) \<and>
   map_option stockQuantity
     (products (snd (placeOrder 7
        [\<lparr> productId = 1, quantity = 3 \<rparr>, \<lparr> productId = 2, quantity = 10 \<rparr>] a_store)) 1) =
     Some 5"
proof -
  let ?one = "\<lparr> productId = 1, quantity = 3 \<rparr>"
  let ?two = "\<lparr> productId = 2, quantity = 10 \<rparr>"
  let ?st1 = "a_store \<lparr> products := (products a_store)(1 \<mapsto> mango \<lparr> stockQuantity := 2 \<rparr>) \<rparr>"
  have c: "conditional_decrement 1 3 a_store = Some ?st1"
    by (simp add: conditional_decrement_def a_store_def mango_def)
  have d: "decrement_each [] [?one] a_store = Inr ?st1"
    using c by simp
  have f: "conditional_decrement (productId ?two) (quantity ?two) ?st1 = None"
    by (simp add: conditional_decrement_def a_store_def lulo_def)
  have s: "snapshot a_store ([?one] @ ?two # []) \<noteq> None"
    by (simp add: a_store_def)
  have m: "map_option stockQuantity (products a_store 1) = Some 5"
    by (simp add: a_store_def mango_def)
  show ?thesis
    using placeOrder_all_or_nothing [of 7 "[?one] @ ?two # []" a_store "[?one]" ?two "[]" ?st1]
      c d f s m
    by simp
qed

text \<open>An order that the stock covers is stored, with the prices of that moment.\<close>

lemma placeOrder_success_example:
  "fst (placeOrder 7 [\<lparr> productId = 1, quantity = 3 \<rparr>, \<lparr> productId = 2, quantity = 2 \<rparr>] a_store) =
     Inr \<lparr> order_id = 3, userId = 7, order_sellerId = Some 8,
           lineItems = [\<lparr> line_productId = 1, line_quantity = 3, unitPriceAtPurchase = 250 \<rparr>,
                        \<lparr> line_productId = 2, line_quantity = 2, unitPriceAtPurchase = 120 \<rparr>],
           status = Pending, order_createdAt = 3 \<rparr> \<and>
   map_option stockQuantity
     (products (snd (placeOrder 7
        [\<lparr> productId = 1, quantity = 3 \<rparr>, \<lparr> productId = 2, quantity = 2 \<rparr>] a_store)) 1) =
     Some 2"
  by (simp add: placeOrder_def conditional_decrement_def a_store_def mango_def lulo_def Let_def)

text \<open>Order placement never drives a stock quantity below zero.\<close>

lemma conditional_decrement_nonneg:
  assumes "conditional_decrement pid q st = Some st'"
    and "\<forall>k p. products st k = Some p \<longrightarrow> 0 \<le> stockQuantity p"
  shows "\<forall>k p. products st' k = Some p \<longrightarrow> 0 \<le> stockQuantity p"
  using assms
  by (auto simp: conditional_decrement_def split: option.splits if_splits)

lemma decrement_each_nonneg:
  "decrement_each applied lis st = Inr st' \<Longrightarrow>
   \<forall>k p. products st k = Some p \<longrightarrow> 0 \<le> stockQuantity p \<Longrightarrow>
   \<forall>k p. products st' k = Some p \<longrightarrow> 0 \<le> stockQuantity p"
proof (induction lis arbitrary: applied st)
  case Nil
  then show ?case by simp
next
  case (Cons li lis)
  show ?case
  proof (cases "conditional_decrement (productId li) (quantity li) st")
    case None
    with Cons.prems show ?thesis by simp
  next
    case (Some st1)
    have "\<forall>k p. products st1 k = Some p \<longrightarrow> 0 \<le> stockQuantity p"
      using Some Cons.prems(2) by (rule conditional_decrement_nonneg)
    moreover have "decrement_each (li # applied) lis st1 = Inr st'"
      using Some Cons.prems(1) by simp
    ultimately show ?thesis
      using Cons.IH by blast
  qed
qed

lemma placeOrder_keeps_stock_nonneg:
  assumes "\<forall>k p. products st k = Some p \<longrightarrow> 0 \<le> stockQuantity p"
  shows "\<forall>k p. products (snd (placeOrder buyer lis st)) k = Some p \<longrightarrow> 0 \<le> stockQuantity p"
proof (cases "snapshot st lis")
  case None
  then show ?thesis
    using assms by (simp add: placeOrder_def)
next
  case (Some lines)
  show ?thesis
  proof (cases "decrement_each [] lis st")
    case (Inl st')
    then have "st' = st"
      using decrement_each_failure_restores [OF Inl] by simp
    then show ?thesis
      using assms Some Inl by (simp add: placeOrder_def)
  next
    case (Inr st')
    then have "\<forall>k p. products st' k = Some p \<longrightarrow> 0 \<le> stockQuantity p"
      using assms by (rule decrement_each_nonneg)
    then show ?thesis
      using Some Inr by (simp add: placeOrder_def Let_def)
  qed
qed

section \<open>Stock quantities under every operation\<close>

lemma createProduct_ok: "store_ok st \<Longrightarrow> store_ok (snd (createProduct caller b st))"
  by (auto simp: createProduct_def store_ok_def Let_def less_Suc_eq
      split: decision.splits option.splits)

lemma updateProduct_ok: "store_ok st \<Longrightarrow> store_ok (snd (updateProduct caller pid b st))"
  by (auto simp: updateProduct_def store_ok_def Let_def
      split: decision.splits option.splits)

lemma deleteProduct_ok: "store_ok st \<Longrightarrow> store_ok (snd (deleteProduct caller pid st))"
  by (auto simp: deleteProduct_def store_ok_def split: decision.splits option.splits)

lemma conditional_decrement_ok:
  "conditional_decrement pid q st = Some st' \<Longrightarrow> store_ok st \<Longrightarrow> store_ok st'"
  by (auto simp: conditional_decrement_def store_ok_def split: option.splits if_splits)

lemma decrement_each_ok:
  "decrement_each applied lis st = Inr st' \<Longrightarrow> store_ok st \<Longrightarrow> store_ok st'"
proof (induction lis arbitrary: applied st)
  case Nil
  then show ?case by simp
next
  case (Cons li lis)
  show ?case
  proof (cases "conditional_decrement (productId li) (quantity li) st")
    case None
    with Cons.prems show ?thesis by simp
  next
    case (Some st1)
    have "store_ok st1"
      using Some Cons.prems(2) by (rule conditional_decrement_ok)
    moreover have "decrement_each (li # applied) lis st1 = Inr st'"
      using Some Cons.prems(1) by simp
    ultimately show ?thesis
      using Cons.IH by blast
  qed
qed

lemma placeOrder_ok: "store_ok st \<Longrightarrow> store_ok (snd (placeOrder buyer lis st))"
proof -
  assume ok: "store_ok st"
  show ?thesis
  proof (cases "snapshot st lis")
    case None
    then show ?thesis
      using ok by (simp add: placeOrder_def)
  next
    case (Some lines)
    show ?thesis
    proof (cases "decrement_each [] lis st")
      case (Inl st')
      then have "st' = st"
        using decrement_each_failure_restores [OF Inl] by simp
      then show ?thesis
        using ok Some Inl by (simp add: placeOrder_def)
    next
      case (Inr st')
      then have "store_ok st'"
        using ok by (rule decrement_each_ok)
      then show ?thesis
        using Some Inr by (auto simp: placeOrder_def Let_def store_ok_def less_Suc_eq)
    qed
  qed
qed

lemma createOrder_ok: "store_ok st \<Longrightarrow> store_ok (snd (createOrder caller lis st))"
  by (auto simp: createOrder_def placeOrder_ok split: decision.splits option.splits)

lemma serve_ok: "store_ok (db sys) \<Longrightarrow> store_ok (db (serve env view op sys))"
  by (cases op)
     (simp_all add: createProduct_ok updateProduct_ok deleteProduct_ok createOrder_ok)

lemma run_ok: "store_ok (db sys) \<Longrightarrow> store_ok (db (run env view ops sys))"
  by (induction ops arbitrary: sys) (simp_all add: serve_ok)

lemma createProduct_writer:
  assumes "store_ok st"
    and "stock_of (snd (createProduct caller b st)) pid \<noteq> stock_of st pid"
  shows "is_owning_seller (PostProduct caller b) st (snd (createProduct caller b st)) pid"
proof (cases caller)
  case None
  with assms(2) show ?thesis
    by (simp add: createProduct_def)
next
  case (Some u)
  have fresh: "products st (tick st) = None"
    using assms(1) by (cases "products st (tick st)") (auto simp: store_ok_def)
  show ?thesis
    using assms(2) Some fresh
    by (auto simp: createProduct_def stock_of_def owner_of_def Let_def
        split: decision.splits if_splits)
qed

lemma updateProduct_writer:
  assumes "stock_of (snd (updateProduct caller k b st)) pid \<noteq> stock_of st pid"
  shows "is_owning_seller (PutProduct caller k b) st (snd (updateProduct caller k b st)) pid"
proof (cases caller)
  case None
  with assms show ?thesis
    by (auto simp: updateProduct_def split: option.splits)
next
  case (Some u)
  with assms show ?thesis
    by (auto simp: updateProduct_def stock_of_def owner_of_def Let_def
        split: option.splits decision.splits if_splits)
qed

lemma deleteProduct_writer:
  assumes "stock_of (snd (deleteProduct caller k st)) pid \<noteq> stock_of st pid"
  shows "is_owning_seller (DeleteProduct caller k) st (snd (deleteProduct caller k st)) pid"
proof (cases caller)
  case None
  with assms show ?thesis
    by (auto simp: deleteProduct_def split: option.splits)
next
  case (Some u)
  with assms show ?thesis
    by (auto simp: deleteProduct_def stock_of_def owner_of_def
        split: option.splits decision.splits if_splits)
qed

lemma serve_writer:
  assumes "store_ok (db sys)"
    and "stock_of (db (serve env view op sys)) pid \<noteq> stock_of (db sys) pid"
  shows "is_order_placement op \<or>
         is_owning_seller op (db sys) (db (serve env view op sys)) pid"
proof (cases op)
  case (PostProduct caller b)
  then show ?thesis
    using assms createProduct_writer [of "db sys" caller b pid] by simp
next
  case (PutProduct caller k b)
  then show ?thesis
    using assms(2) updateProduct_writer [of caller k b "db sys" pid] by simp
next
  case (DeleteProduct caller k)
  then show ?thesis
    using assms(2) deleteProduct_writer [of caller k "db sys" pid] by simp
qed (use assms(2) in simp_all)

text \<open>
  C3. Let the service start in a state where every stored product has a non-negative
  stock quantity. Then after any sequence of the operations the service exposes, the two
  \<^verbatim>\<open>GET\<close> handlers of the sources and the modelled product and order operations, every
  stored product has a non-negative stock quantity. And in any state so reached, an
  operation that changes the stock quantity of a product, creates it or removes it is
  an order placement or a write by the seller who owns that product; the \<^verbatim>\<open>GET\<close>
  handlers change no stock at all.
\<close>

theorem stock_quantity_invariant:
  assumes "store_ok (db sys)"
  shows
  "(\<forall>k p. products (db (run env view ops sys)) k = Some p \<longrightarrow> 0 \<le> stockQuantity p) \<and>
   (\<forall>pid. stock_of (db (serve env view op (run env view ops sys))) pid \<noteq>
           stock_of (db (run env view ops sys)) pid \<longrightarrow>
      is_order_placement op \<or>
      is_owning_seller op (db (run env view ops sys))
        (db (serve env view op (run env view ops sys))) pid) \<and>
   db (serve env view (GetProducts ev) (run env view ops sys)) = db (run env view ops sys) \<and>
   db (serve env view (GetMarkets ev) (run env view ops sys)) = db (run env view ops sys)"
proof -
  have ok: "store_ok (db (run env view ops sys))"
    using assms by (rule run_ok)
  then have "\<forall>k p. products (db (run env view ops sys)) k = Some p \<longrightarrow> 0 \<le> stockQuantity p"
    by (simp add: store_ok_def)
  moreover have "\<forall>pid. stock_of (db (serve env view op (run env view ops sys))) pid \<noteq>
           stock_of (db (run env view ops sys)) pid \<longrightarrow>
      is_order_placement op \<or>
      is_owning_seller op (db (run env view ops sys))
        (db (serve env view op (run env view ops sys))) pid"
    using serve_writer [OF ok] by blast
  ultimately show ?thesis
    by simp
qed

theorem stock_quantity_invariant_witness:
  "store_ok (db a_system) \<and>
   stock_of (db (run sample_env product_rows [GetProducts market_query] a_system)) 1 = Some 5 \<and>
   stock_of (db (serve sample_env product_rows (PutProduct (Some a_seller) 1 restock)
                   (run sample_env product_rows [GetProducts market_query] a_system))) 1 =
     Some 9 \<and>
   is_owning_seller (PutProduct (Some a_seller) 1 restock)
     (db (run sample_env product_rows [GetProducts market_query] a_system))
     (db (serve sample_env product_rows (PutProduct (Some a_seller) 1 restock)
            (run sample_env product_rows [GetProducts market_query] a_system))) 1 \<and>
   stock_of (db (serve sample_env product_rows (PutProduct (Some a_customer) 1 restock)
                   a_system)) 1 = Some 5 \<and>
   stock_of (db (run sample_env product_rows
                   [PutProduct (Some a_seller) 1 restock,
                    PostOrder (Some a_customer) [\<lparr> productId = 1, quantity = 3 \<rparr>],
                    GetMarkets no_query] a_system)) 1 = Some 6"
proof -
  have ok: "store_ok (db a_system)"
    by (auto simp: store_ok_def a_system_def a_store_def mango_def lulo_def split: if_splits)
  have d: "db (run sample_env product_rows [GetProducts market_query] a_system) = a_store"
    by (simp add: a_system_def)
  have b: "stock_of a_store 1 = Some 5"
    by (simp add: stock_of_def a_store_def mango_def)
  have u: "stock_of (snd (updateProduct (Some a_seller) 1 restock a_store)) 1 = Some 9"
    by (simp add: updateProduct_def stock_of_def a_store_def mango_def a_seller_def
        restock_def Let_def)
  have c: "stock_of (snd (updateProduct (Some a_customer) 1 restock a_store)) 1 = Some 5"
    by (simp add: updateProduct_def stock_of_def a_store_def mango_def a_customer_def)
  have r: "stock_of (snd (createOrder (Some a_customer) [\<lparr> productId = 1, quantity = 3 \<rparr>]
                      (snd (updateProduct (Some a_seller) 1 restock a_store)))) 1 = Some 6"
    by (simp add: createOrder_def placeOrder_def conditional_decrement_def updateProduct_def
        stock_of_def a_store_def mango_def a_seller_def a_customer_def restock_def Let_def)
  show ?thesis
    using stock_quantity_invariant [OF ok, of sample_env product_rows
        "[GetProducts market_query]" "PutProduct (Some a_seller) 1 restock"]
      ok b u c r
    by (simp add: d) (simp add: a_system_def)
qed

section \<open>Concurrent placements never oversell\<close>

lemma sum_list_map_update:
  fixes f :: "'a \<Rightarrow> int"
  shows "i < length xs \<Longrightarrow>
         sum_list (map f (xs[i := y])) = sum_list (map f xs) - f (xs ! i) + f y"
proof (induction xs arbitrary: i)
  case Nil
  then show ?case by simp
next
  case (Cons x xs)
  then show ?case by (cases i) simp_all
qed

lemma list_all_update: "list_all P xs \<Longrightarrow> P y \<Longrightarrow> list_all P (xs[i := y])"
proof (induction xs arbitrary: i)
  case Nil
  then show ?case by simp
next
  case (Cons x xs)
  then show ?case by (cases i) simp_all
qed

lemma nth_le_sum_list:
  fixes f :: "'a \<Rightarrow> int"
  shows "\<forall>x \<in> set xs. 0 \<le> f x \<Longrightarrow> k < length xs \<Longrightarrow> f (xs ! k) \<le> sum_list (map f xs)"
proof (induction xs arbitrary: k)
  case Nil
  then show ?case by simp
next
  case (Cons x xs)
  have n: "0 \<le> sum_list (map f xs)"
    using Cons.prems(1) by (intro sum_list_nonneg) auto
  show ?case
  proof (cases k)
    case 0
    then show ?thesis using n by simp
  next
    case (Suc k')
    then have "f (xs ! k') \<le> sum_list (map f xs)"
      using Cons.prems by (intro Cons.IH) simp_all
    moreover have "0 \<le> f x"
      using Cons.prems(1) by simp
    ultimately show ?thesis
      using Suc by simp
  qed
qed

lemma two_le_sum_list:
  fixes f :: "'a \<Rightarrow> int"
  shows "\<forall>x \<in> set xs. 0 \<le> f x \<Longrightarrow> i < j \<Longrightarrow> j < length xs \<Longrightarrow>
         f (xs ! i) + f (xs ! j) \<le> sum_list (map f xs)"
proof (induction xs arbitrary: i j)
  case Nil
  then show ?case by simp
next
  case (Cons x xs)
  obtain j' where j: "j = Suc j'"
    using Cons.prems(2) by (cases j) simp_all
  have x: "0 \<le> f x"
    using Cons.prems(1) by simp
  have a: "\<forall>y \<in> set xs. 0 \<le> f y"
    using Cons.prems(1) by simp
  have jl: "j' < length xs"
    using Cons.prems(3) j by simp
  show ?case
  proof (cases i)
    case 0
    have "f (xs ! j') \<le> sum_list (map f xs)"
      using a jl by (rule nth_le_sum_list)
    then show ?thesis
      using 0 j by simp
  next
    case (Suc i')
    then have "i' < j'"
      using Cons.prems(2) j by simp
    then have "f (xs ! i') + f (xs ! j') \<le> sum_list (map f xs)"
      using a jl by (intro Cons.IH) simp_all
    then show ?thesis
      using Suc j x by simp
  qed
qed

lemma quantity_of_Nil: "quantity_of pid [] = 0"
  by (simp add: quantity_of_def)

lemma quantity_of_Cons:
  "quantity_of pid (li # lis) =
     (if productId li = pid then quantity li else 0) + quantity_of pid lis"
  by (simp add: quantity_of_def)

lemma quantity_of_nonneg: "list_all (\<lambda>li. 0 < quantity li) lis \<Longrightarrow> 0 \<le> quantity_of pid lis"
  by (induction lis) (simp_all add: quantity_of_Nil quantity_of_Cons)

lemma quantity_of_keys:
  "quantity_of pid lis =
     sum_list (map snd (filter (\<lambda>kq. fst kq = pid)
                          (map (\<lambda>li. (productId li, quantity li)) lis)))"
  by (induction lis) (simp_all add: quantity_of_Nil quantity_of_Cons)

lemma ordered_of_keys:
  "ordered_of pid lines =
     sum_list (map snd (filter (\<lambda>kq. fst kq = pid)
                          (map (\<lambda>l. (line_productId l, line_quantity l)) lines)))"
  by (induction lines) (simp_all add: ordered_of_def)

lemma quantity_of_rev: "quantity_of pid (rev lis) = quantity_of pid lis"
  by (simp add: quantity_of_def rev_filter [symmetric] rev_map [symmetric] sum_list_rev)

lemma ordered_of_same_keys:
  "map (\<lambda>l. (line_productId l, line_quantity l)) lines =
   map (\<lambda>li. (productId li, quantity li)) lis \<Longrightarrow>
   ordered_of pid lines = quantity_of pid lis"
  by (simp add: quantity_of_keys ordered_of_keys)

lemma positive_same_keys:
  "map (\<lambda>l. (line_productId l, line_quantity l)) lines =
   map (\<lambda>li. (productId li, quantity li)) lis \<Longrightarrow>
   list_all (\<lambda>li. 0 < quantity li) lis \<Longrightarrow>
   list_all (\<lambda>l. 0 < line_quantity l) lines"
proof (induction lines arbitrary: lis)
  case Nil
  then show ?case by simp
next
  case (Cons l lines)
  then obtain li lis' where "lis = li # lis'"
    by (cases lis) simp_all
  with Cons show ?case by auto
qed

lemma ordered_of_nonneg:
  "list_all (\<lambda>l. 0 < line_quantity l) lines \<Longrightarrow> 0 \<le> ordered_of pid lines"
  by (induction lines) (simp_all add: ordered_of_def)

lemma snapshot_keys:
  "snapshot st lis = Some lines \<Longrightarrow>
   map (\<lambda>l. (line_productId l, line_quantity l)) lines =
     map (\<lambda>li. (productId li, quantity li)) lis \<and>
   list_all (\<lambda>li. 0 < quantity li) lis"
proof (induction lis arbitrary: lines)
  case Nil
  then show ?case by simp
next
  case (Cons li lis)
  then show ?case
    by (auto split: option.splits if_splits)
qed

lemma conditional_decrement_products:
  "conditional_decrement k q st = Some st' \<Longrightarrow>
   \<exists>pk. products st k = Some pk \<and> q \<le> stockQuantity pk \<and>
        products st' = (products st)(k \<mapsto> pk \<lparr> stockQuantity := stockQuantity pk - q \<rparr>)"
  by (auto simp: conditional_decrement_def split: option.splits if_splits)

lemma increment_products:
  "products (increment k q st) pid =
     (if k = pid
      then map_option (\<lambda>p. p \<lparr> stockQuantity := stockQuantity p + q \<rparr>) (products st pid)
      else products st pid)"
  by (auto simp: increment_def split: option.splits)

lemma placed_le_held:
  "placement_ok pl \<Longrightarrow> 0 \<le> placed pid pl \<and> placed pid pl \<le> held pid pl"
  by (cases pl) (simp_all add: ordered_of_nonneg quantity_of_nonneg)

lemma ended_held: "ended pl \<Longrightarrow> held pid pl = placed pid pl"
  by (cases pl) simp_all

lemma place_step_conserves:
  assumes "place_step pl st = (pl', st')" and "placement_ok pl"
    and "products st pid = Some p" and "0 \<le> stockQuantity p"
  shows "placement_ok pl' \<and>
         (\<exists>p'. products st' pid = Some p' \<and> 0 \<le> stockQuantity p' \<and>
               stockQuantity p' + held pid pl' = stockQuantity p + held pid pl)"
proof (cases pl)
  case (Start buyerId lis)
  show ?thesis
  proof (cases "snapshot st lis")
    case None
    with Start assms show ?thesis by auto
  next
    case (Some lines)
    with Start assms snapshot_keys [OF Some] show ?thesis
      by (auto simp: quantity_of_Nil)
  qed
next
  case (Decrementing buyerId seller lines applied todo)
  show ?thesis
  proof (cases todo)
    case Nil
    have k: "map (\<lambda>l. (line_productId l, line_quantity l)) lines =
             map (\<lambda>li. (productId li, quantity li)) (rev applied)"
      using assms(2) Decrementing Nil by simp
    have pos: "list_all (\<lambda>li. 0 < quantity li) (rev applied)"
      using assms(2) Decrementing Nil by simp
    have "ordered_of pid lines = quantity_of pid applied"
      using ordered_of_same_keys [OF k] by (simp add: quantity_of_rev)
    moreover have "list_all (\<lambda>l. 0 < line_quantity l) lines"
      using k pos by (rule positive_same_keys)
    ultimately show ?thesis
      using assms Decrementing Nil by (auto simp: Let_def)
  next
    case (Cons li rest)
    show ?thesis
    proof (cases "conditional_decrement (productId li) (quantity li) st")
      case None
      with assms Decrementing Cons show ?thesis by auto
    next
      case (Some st1)
      obtain pk where pk: "products st (productId li) = Some pk"
        "quantity li \<le> stockQuantity pk"
        "products st1 =
           (products st)(productId li \<mapsto> pk \<lparr> stockQuantity := stockQuantity pk - quantity li \<rparr>)"
        using conditional_decrement_products [OF Some] by blast
      have r: "pl' = Decrementing buyerId seller lines (li # applied) rest" "st' = st1"
        using assms(1) Decrementing Cons Some by simp_all
      have ok: "placement_ok pl'"
        using assms(2) Decrementing Cons r by simp
      show ?thesis
      proof (cases "productId li = pid")
        case True
        then show ?thesis
          using ok r pk assms(3,4) Decrementing by (simp add: quantity_of_Cons)
      next
        case False
        then show ?thesis
          using ok r pk assms(3,4) Decrementing by (simp add: quantity_of_Cons)
      qed
    qed
  qed
next
  case (RollingBack applied)
  show ?thesis
  proof (cases applied)
    case Nil
    with assms RollingBack show ?thesis
      by (auto simp: quantity_of_Nil)
  next
    case (Cons li rest)
    have r: "pl' = RollingBack rest" "st' = increment (productId li) (quantity li) st"
      using assms(1) RollingBack Cons by simp_all
    have q: "0 < quantity li" and ok: "placement_ok pl'"
      using assms(2) RollingBack Cons r by simp_all
    show ?thesis
      using ok r q assms(3,4) RollingBack Cons
      by (simp add: increment_products quantity_of_Cons)
  qed
next
  case (Succeeded ord)
  with assms show ?thesis by auto
next
  case (Failed f)
  with assms show ?thesis by auto
qed

lemma step_at_conserves:
  assumes "conserves pid S c"
  shows "conserves pid S (step_at i c)"
proof -
  obtain ps st where c: "c = (ps, st)"
    by (cases c)
  obtain p where p: "products st pid = Some p" "0 \<le> stockQuantity p"
    "stockQuantity p + sum_list (map (held pid) ps) = S"
    and ok: "list_all placement_ok ps"
    using assms c by (auto simp: conserves_def split: option.splits)
  show ?thesis
  proof (cases "i < length ps")
    case False
    then show ?thesis
      using assms c by (simp add: step_at_def)
  next
    case True
    obtain pl' st' where s: "place_step (ps ! i) st = (pl', st')"
      by (cases "place_step (ps ! i) st")
    have "placement_ok (ps ! i)"
      using ok True by (simp add: list_all_length)
    from place_step_conserves [OF s this p(1,2)]
    obtain p' where p': "placement_ok pl'" "products st' pid = Some p'"
      "0 \<le> stockQuantity p'"
      "stockQuantity p' + held pid pl' = stockQuantity p + held pid (ps ! i)"
      by blast
    have "sum_list (map (held pid) (ps[i := pl'])) =
          sum_list (map (held pid) ps) - held pid (ps ! i) + held pid pl'"
      using True by (rule sum_list_map_update)
    then have "stockQuantity p' + sum_list (map (held pid) (ps[i := pl'])) = S"
      using p(3) p'(4) by simp
    moreover have "list_all placement_ok (ps[i := pl'])"
      using ok p'(1) by (rule list_all_update)
    ultimately show ?thesis
      using c True s p'(2,3) by (simp add: step_at_def conserves_def)
  qed
qed

lemma interleave_conserves:
  "conserves pid S c \<Longrightarrow> conserves pid S (interleave sched c)"
  by (induction sched arbitrary: c) (simp_all add: step_at_conserves)

lemma starts_hold_nothing:
  "sum_list (map (held pid) (map (\<lambda>(buyerId, lis). Start buyerId lis) reqs)) = 0 \<and>
   list_all placement_ok (map (\<lambda>(buyerId, lis). Start buyerId lis) reqs)"
  by (induction reqs) auto

text \<open>
  C1. Let any number of order placements run concurrently against a store in which
  product \<open>pid\<close> has stock \<open>S\<close>, their storage calls interleaved by an arbitrary
  schedule. At every point of the run the quantity of \<open>pid\<close> in the orders placed so
  far is at most \<open>S\<close>; the stock of \<open>pid\<close> is not negative, it is at most \<open>S\<close> minus
  the quantity placed, and it is exactly that once every invocation has ended; and two
  invocations have both succeeded only if their quantities together are at most \<open>S\<close>.
\<close>

theorem concurrent_orders_never_oversell:
  assumes "products st pid = Some p" and "stockQuantity p = S" and "0 \<le> S"
    and "interleave sched (map (\<lambda>(buyerId, lis). Start buyerId lis) reqs, st) = (ps, st')"
  shows
  "sum_list (map (placed pid) ps) \<le> S \<and>
   (\<exists>p'. products st' pid = Some p' \<and> 0 \<le> stockQuantity p' \<and>
         stockQuantity p' \<le> S - sum_list (map (placed pid) ps) \<and>
         (list_all ended ps \<longrightarrow> stockQuantity p' = S - sum_list (map (placed pid) ps))) \<and>
   (\<forall>i j oi oj. i < j \<and> j < length ps \<and> ps ! i = Succeeded oi \<and> ps ! j = Succeeded oj \<longrightarrow>
      ordered_of pid (lineItems oi) + ordered_of pid (lineItems oj) \<le> S)"
proof -
  have "conserves pid S (map (\<lambda>(buyerId, lis). Start buyerId lis) reqs, st)"
    using assms(1,2,3) starts_hold_nothing [of pid reqs] by (simp add: conserves_def)
  then have "conserves pid S (ps, st')"
    using interleave_conserves [of pid S _ sched] assms(4) by fastforce
  then obtain p' where p': "products st' pid = Some p'" "0 \<le> stockQuantity p'"
    "stockQuantity p' + sum_list (map (held pid) ps) = S"
    and ok: "list_all placement_ok ps"
    by (auto simp: conserves_def split: option.splits)
  have each: "\<forall>pl \<in> set ps. 0 \<le> placed pid pl \<and> placed pid pl \<le> held pid pl"
    using ok placed_le_held by (auto simp: list_all_iff)
  have le: "sum_list (map (placed pid) ps) \<le> sum_list (map (held pid) ps)"
    using each by (intro sum_list_mono) simp
  have total: "sum_list (map (placed pid) ps) \<le> S"
    using le p'(2,3) by simp
  have same: "list_all ended ps \<Longrightarrow> map (held pid) ps = map (placed pid) ps"
    by (simp add: list_all_iff ended_held)
  have pair: "ordered_of pid (lineItems oi) + ordered_of pid (lineItems oj) \<le> S"
    if "i < j" "j < length ps" "ps ! i = Succeeded oi" "ps ! j = Succeeded oj" for i j oi oj
  proof -
    have "placed pid (ps ! i) + placed pid (ps ! j) \<le> sum_list (map (placed pid) ps)"
      using each that(1,2) by (intro two_le_sum_list) simp_all
    then show ?thesis
      using that(3,4) total by simp
  qed
  have "stockQuantity p' \<le> S - sum_list (map (placed pid) ps)"
    using le p'(3) by simp
  moreover have "list_all ended ps \<longrightarrow> stockQuantity p' = S - sum_list (map (placed pid) ps)"
  proof
    assume "list_all ended ps"
    then have "map (held pid) ps = map (placed pid) ps"
      by (rule same)
    then have "sum_list (map (held pid) ps) = sum_list (map (placed pid) ps)"
      by (rule arg_cong)
    then show "stockQuantity p' = S - sum_list (map (placed pid) ps)"
      using p'(3) by simp
  qed
  ultimately show ?thesis
    using total p'(1,2) pair by blast
qed

theorem concurrent_orders_never_oversell_witness:
  "products a_store 1 = Some mango \<and> stockQuantity mango = 5 \<and>
   fst (interleave [0, 1, 0, 1, 0, 1] (two_buyers, a_store)) =
     [Succeeded \<lparr> order_id = 3, userId = 7, order_sellerId = Some 8,
                  lineItems = [\<lparr> line_productId = 1, line_quantity = 3,
                                 unitPriceAtPurchase = 250 \<rparr>],
                  status = Pending, order_createdAt = 3 \<rparr>,
      Failed InsufficientStock] \<and>
   map_option stockQuantity
     (products (snd (interleave [0, 1, 0, 1, 0, 1] (two_buyers, a_store))) 1) = Some 2 \<and>
   sum_list (map (placed 1) (fst (interleave [0, 1, 0, 1, 0, 1] (two_buyers, a_store)))) \<le> 5"
proof -
  let ?reqs = "[(7, [\<lparr> productId = 1, quantity = 3 \<rparr>]), (9, [\<lparr> productId = 1, quantity = 3 \<rparr>])]"
  have m: "products a_store 1 = Some mango"
    by (simp add: a_store_def)
  have s: "stockQuantity mango = 5"
    by (simp add: mango_def)
  have t: "map (\<lambda>(buyerId, lis). Start buyerId lis) ?reqs = two_buyers"
    by (simp add: two_buyers_def)
  have i: "interleave [0, 1, 0, 1, 0, 1] (map (\<lambda>(buyerId, lis). Start buyerId lis) ?reqs, a_store) =
           (fst (interleave [0, 1, 0, 1, 0, 1] (two_buyers, a_store)),
            snd (interleave [0, 1, 0, 1, 0, 1] (two_buyers, a_store)))"
    unfolding t by simp
  have r: "interleave [0, 1, 0, 1, 0, 1] (two_buyers, a_store) =
     ([Succeeded \<lparr> order_id = 3, userId = 7, order_sellerId = Some 8,
                   lineItems = [\<lparr> line_productId = 1, line_quantity = 3,
                                  unitPriceAtPurchase = 250 \<rparr>],
                   status = Pending, order_createdAt = 3 \<rparr>,
       Failed InsufficientStock],
      a_store \<lparr> products := (products a_store)(1 \<mapsto> mango \<lparr> stockQuantity := 2 \<rparr>),
                orders := [\<lparr> order_id = 3, userId = 7, order_sellerId = Some 8,
                              lineItems = [\<lparr> line_productId = 1, line_quantity = 3,
                                             unitPriceAtPurchase = 250 \<rparr>],
                              status = Pending, order_createdAt = 3 \<rparr>],
                tick := 4 \<rparr>)"
    by (simp add: two_buyers_def step_at_def conditional_decrement_def a_store_def mango_def
        Let_def)
  have z: "(0::int) \<le> 5"
    by simp
  have total:
    "sum_list (map (placed 1) (fst (interleave [0, 1, 0, 1, 0, 1] (two_buyers, a_store)))) \<le> 5"
    using concurrent_orders_never_oversell [OF m s z i] by (rule conjunct1)
  have f: "fst (interleave [0, 1, 0, 1, 0, 1] (two_buyers, a_store)) =
     [Succeeded \<lparr> order_id = 3, userId = 7, order_sellerId = Some 8,
                  lineItems = [\<lparr> line_productId = 1, line_quantity = 3,
                                 unitPriceAtPurchase = 250 \<rparr>],
                  status = Pending, order_createdAt = 3 \<rparr>,
      Failed InsufficientStock]"
    unfolding r by simp
  have g: "map_option stockQuantity
     (products (snd (interleave [0, 1, 0, 1, 0, 1] (two_buyers, a_store))) 1) = Some 2"
    unfolding r by simp
  show ?thesis
    by (intro conjI) (rule m s f g total)+
qed

text \<open>
  An invocation that runs alone is \<open>placeOrder\<close>: once it has been given enough steps
  it has ended, with the outcome and the store of \<open>placeOrder\<close>.
\<close>

lemma steps_ended: "ended pl \<Longrightarrow> steps n pl st = (pl, st)"
  by (induction n) (cases pl; simp)+

lemma steps_rollback:
  "length applied < n \<Longrightarrow>
   steps n (RollingBack applied) st = (Failed InsufficientStock, rollback applied st)"
proof (induction applied arbitrary: n st)
  case Nil
  then obtain m where "n = Suc m"
    by (cases n) simp_all
  then show ?case
    by (simp add: steps_ended)
next
  case (Cons li applied)
  then obtain m where m: "n = Suc m" "length applied < m"
    by (cases n) simp_all
  show ?case
    using Cons.IH [OF m(2)] m(1) by simp
qed

lemma steps_decrementing:
  "2 * length todo + length applied < n \<Longrightarrow>
   steps n (Decrementing buyerId seller lines applied todo) st =
     (case decrement_each applied todo st of
        Inl st' \<Rightarrow> (Failed InsufficientStock, st')
      | Inr st' \<Rightarrow>
          (Succeeded \<lparr> order_id = tick st', userId = buyerId, order_sellerId = seller,
                       lineItems = lines, status = Pending, order_createdAt = tick st' \<rparr>,
           st' \<lparr> orders := orders st' @
                    [\<lparr> order_id = tick st', userId = buyerId, order_sellerId = seller,
                       lineItems = lines, status = Pending, order_createdAt = tick st' \<rparr>],
                 tick := Suc (tick st') \<rparr>))"
proof (induction todo arbitrary: applied n st)
  case Nil
  then obtain m where "n = Suc m"
    by (cases n) simp_all
  then show ?case
    by (simp add: steps_ended Let_def)
next
  case (Cons li todo)
  then obtain m where m: "n = Suc m" "2 * length todo + length applied + 1 < m"
    by (cases n) simp_all
  show ?case
  proof (cases "conditional_decrement (productId li) (quantity li) st")
    case None
    have "length applied < m"
      using m(2) by simp
    then show ?thesis
      using None m(1) by (simp add: steps_rollback)
  next
    case (Some st1)
    have "2 * length todo + length (li # applied) < m"
      using m(2) by simp
    from Cons.IH [OF this] show ?thesis
      using Some m(1) by simp
  qed
qed

lemma steps_alone:
  assumes "2 * length lis + 1 < n"
  shows "steps n (Start buyerId lis) st = outcome (placeOrder buyerId lis st)"
proof -
  obtain m where m: "n = Suc m" "2 * length lis + length ([] :: line_item list) < m"
    using assms by (cases n) simp_all
  show ?thesis
  proof (cases "snapshot st lis")
    case None
    then show ?thesis
      using m(1) by (simp add: placeOrder_def steps_ended)
  next
    case (Some lines)
    then show ?thesis
      using m(1) steps_decrementing [OF m(2)]
      by (simp add: placeOrder_def Let_def split: sum.splits)
  qed
qed

lemma interleave_alone:
  "interleave (replicate n 0) ([pl], st) = (case steps n pl st of (pl', st') \<Rightarrow> ([pl'], st'))"
  by (induction n arbitrary: pl st) (simp_all add: step_at_def split: prod.splits)

lemma placement_alone_is_placeOrder:
  assumes "2 * length lis + 1 < n"
  shows "interleave (replicate n 0) ([Start buyerId lis], st) =
           (case outcome (placeOrder buyerId lis st) of (pl, st') \<Rightarrow> ([pl], st'))"
  by (simp add: interleave_alone steps_alone [OF assms])

end
